theory Spec2Isabelle
  imports Complex_Main "HOL-Library.Sublist"
begin

section \<open>Numbers, clock readings and alerts\<close>

text \<open>
  A JavaScript number is an IEEE 754 binary64 value. It is modelled as \<open>NaN\<close>, one of the
  two infinities, or a finite value held as the rational it stands for; the two zeros
  are identified. An arithmetic operation computes the exact result and rounds it to
  the nearest double, a tie going to the even significand, as the language does.
  A \<open>Date\<close> is its \<open>getTime()\<close>: milliseconds as an integer; \<open>Date | null\<close> is an
  \<open>int option\<close>.
\<close>

datatype number = NaN | NegInf | PosInf | Val rat

subsection \<open>Rounding to the nearest double\<close>

definition pow2 :: "int \<Rightarrow> rat" where
  "pow2 e = (if e \<ge> 0 then 2 ^ nat e else 1 / 2 ^ nat (- e))"

text \<open>
  \<open>ilog2 n\<close> is the greatest \<open>k\<close> with \<open>2 ^ k \<le> n\<close> (for \<open>n \<ge> 1\<close>), \<open>clog2 n\<close> the least
  \<open>k\<close> with \<open>n \<le> 2 ^ k\<close>.
\<close>

fun ilog2 :: "nat \<Rightarrow> nat" where
  "ilog2 n = (if n < 2 then 0 else Suc (ilog2 (n div 2)))"

fun clog2 :: "nat \<Rightarrow> nat" where
  "clog2 n = (if n \<le> 1 then 0 else Suc (clog2 ((n + 1) div 2)))"

declare ilog2.simps [simp del] clog2.simps [simp del]

text \<open>The binary exponent of a nonzero \<open>x\<close>: the \<open>e\<close> with \<open>2 ^ e \<le> \<bar>x\<bar> < 2 ^ (e + 1)\<close>.\<close>

definition exponent :: "rat \<Rightarrow> int" where
  "exponent x =
     (let a = \<bar>x\<bar>
      in if a \<ge> 1 then int (ilog2 (nat \<lfloor>a\<rfloor>))
         else - int (clog2 (nat (- \<lfloor>- (1 / a)\<rfloor>))))"

definition round_half_even :: "rat \<Rightarrow> int" where
  "round_half_even y =
     (let f = \<lfloor>y\<rfloor>; r = y - of_int f
      in if r < 1 / 2 then f else if r > 1 / 2 then f + 1 else if even f then f else f + 1)"

text \<open>
  \<open>rnd x\<close> is the multiple of the spacing \<open>2 ^ (e - 52)\<close> nearest to \<open>x\<close>, where \<open>e\<close> is the
  exponent of \<open>x\<close>, and \<open>-1022\<close> for the subnormal range. \<open>fl x\<close> is the double that an
  operation with the exact result \<open>x\<close> returns: \<open>rnd x\<close>, or an infinity on overflow.
\<close>

definition rnd :: "rat \<Rightarrow> rat" where
  "rnd x =
     (if x = 0 then 0
      else (let e = max (exponent x) (- 1022); q = pow2 (e - 52)
            in of_int (round_half_even (x / q)) * q))"

definition fl :: "rat \<Rightarrow> number" where
  "fl x =
     (let y = rnd x
      in if y \<ge> 2 ^ 1024 then PosInf else if y \<le> - (2 ^ 1024) then NegInf else Val y)"

subsection \<open>Comparison and arithmetic\<close>

text \<open>Every comparison with \<open>NaN\<close> is false.\<close>

fun num_lt :: "number \<Rightarrow> number \<Rightarrow> bool" where
  "num_lt NaN y = False"
| "num_lt x NaN = False"
| "num_lt (Val a) (Val b) = (a < b)"
| "num_lt PosInf y = False"
| "num_lt x NegInf = False"
| "num_lt NegInf y = True"
| "num_lt x PosInf = True"

fun num_gt :: "number \<Rightarrow> number \<Rightarrow> bool" where
  "num_gt x y = num_lt y x"

fun num_ge :: "number \<Rightarrow> number \<Rightarrow> bool" where
  "num_ge NaN y = False"
| "num_ge x NaN = False"
| "num_ge (Val a) (Val b) = (a \<ge> b)"
| "num_ge PosInf y = True"
| "num_ge x NegInf = True"
| "num_ge x y = False"

fun num_eq :: "number \<Rightarrow> number \<Rightarrow> bool" where
  "num_eq (Val a) (Val b) = (a = b)"
| "num_eq PosInf PosInf = True"
| "num_eq NegInf NegInf = True"
| "num_eq x y = False"

fun isNaN :: "number \<Rightarrow> bool" where
  "isNaN NaN = True"
| "isNaN x = False"

fun sign_of :: "number \<Rightarrow> rat" where
  "sign_of (Val a) = sgn a"
| "sign_of PosInf = 1"
| "sign_of NegInf = - 1"
| "sign_of NaN = 0"

definition inf_of_sign :: "rat \<Rightarrow> number" where
  "inf_of_sign s = (if s > 0 then PosInf else if s < 0 then NegInf else NaN)"

fun num_neg :: "number \<Rightarrow> number" where
  "num_neg (Val a) = Val (- a)"
| "num_neg PosInf = NegInf"
| "num_neg NegInf = PosInf"
| "num_neg NaN = NaN"

fun num_add :: "number \<Rightarrow> number \<Rightarrow> number" where
  "num_add (Val a) (Val b) = fl (a + b)"
| "num_add NaN y = NaN"
| "num_add x NaN = NaN"
| "num_add PosInf NegInf = NaN"
| "num_add NegInf PosInf = NaN"
| "num_add PosInf y = PosInf"
| "num_add NegInf y = NegInf"
| "num_add x PosInf = PosInf"
| "num_add x NegInf = NegInf"

fun num_sub :: "number \<Rightarrow> number \<Rightarrow> number" where
  "num_sub x y = num_add x (num_neg y)"

text \<open>
  A product with an infinity is an infinity of the product's sign, and \<open>NaN\<close> when the
  other factor is zero. A quotient by zero takes the zero as positive.
\<close>

fun num_mul :: "number \<Rightarrow> number \<Rightarrow> number" where
  "num_mul (Val a) (Val b) = fl (a * b)"
| "num_mul NaN y = NaN"
| "num_mul x NaN = NaN"
| "num_mul x y = inf_of_sign (sign_of x * sign_of y)"

fun num_div :: "number \<Rightarrow> number \<Rightarrow> number" where
  "num_div (Val a) (Val b) = (if b = 0 then inf_of_sign (sgn a) else fl (a / b))"
| "num_div NaN y = NaN"
| "num_div x NaN = NaN"
| "num_div (Val a) y = Val 0"
| "num_div x (Val b) = inf_of_sign (sign_of x * (if b < 0 then - 1 else 1))"
| "num_div x y = NaN"

text \<open>\<open>Math.round\<close>: the nearest integer, a tie going up; \<open>Math.floor\<close>.\<close>

fun Math_round :: "number \<Rightarrow> number" where
  "Math_round (Val a) = Val (of_int \<lfloor>a + 1 / 2\<rfloor>)"
| "Math_round x = x"

fun Math_floor :: "number \<Rightarrow> number" where
  "Math_floor (Val a) = Val (of_int \<lfloor>a\<rfloor>)"
| "Math_floor x = x"

text \<open>A string is truthy when it is not empty.\<close>

definition truthy :: "string \<Rightarrow> bool" where
  "truthy s = (s \<noteq> [])"

datatype alert =
    SystemResetAlert string
  | LoadSheddingAlert number
  | GridFeedDisabledAlert
  | SystemOfflineAlert int

section \<open>The monitoring service: state and configuration\<close>

record MonitoringState =
  lastGridFeedCheck :: "int option"
  lastLoadSheddingAlertTime :: "int option"
  lastResetAlertTime :: "int option"
  lastDailySummaryDate :: "string option"
  lastDataTimestamp :: int
  lastSystemOfflineAlertTime :: "int option"
  isLoadShedding :: bool
  systemResetDetected :: bool
  systemOnline :: bool
  lastKnownOutputPriority :: "string option"
  gridFeedingEnabled :: bool
  previousGridFeedStatus :: bool

text \<open>
  The configuration is read from the environment once, in the constructor; the values
  below are the parsed settings, \<open>default_config\<close> the ones used when no variable is set.
  A threshold is taken to be finite: a variable that does not parse as a number is left
  out.
\<close>

record config =
  gridFeedAlertIntervalHours :: int
  loadSheddingVoltageThreshold :: rat
  systemOfflineThresholdMinutes :: int
  lowProductionThresholdWatts :: rat

definition default_config :: config where
  "default_config = \<lparr> gridFeedAlertIntervalHours = 1, loadSheddingVoltageThreshold = 180,
     systemOfflineThresholdMinutes = 10, lowProductionThresholdWatts = 500 \<rparr>"

text \<open>
  The settings storage keeps a JSON object in the file \<open>system_settings.json\<close>. The
  state of the file is its parsed content, \<open>None\<close> when the file is missing or does not
  parse, together with whether a write to it succeeds (a failed write is logged and
  dropped). The keys used here hold booleans.
\<close>

type_synonym Settings = "string \<rightharpoonup> bool"

record storage =
  settingsFile :: "Settings option"
  writable :: bool

definition loadSettings :: "storage \<Rightarrow> Settings" where
  "loadSettings st = (case settingsFile st of None \<Rightarrow> Map.empty | Some settings \<Rightarrow> settings)"

definition saveSettings :: "storage \<Rightarrow> Settings \<Rightarrow> storage" where
  "saveSettings st settings = (if writable st then st\<lparr> settingsFile := Some settings \<rparr> else st)"

definition storage_get :: "storage \<Rightarrow> string \<Rightarrow> bool \<Rightarrow> bool" where
  "storage_get st k defaultValue =
     (let settings = loadSettings st
      in case settings k of None \<Rightarrow> defaultValue | Some v \<Rightarrow> v)"

definition storage_set :: "storage \<Rightarrow> string \<Rightarrow> bool \<Rightarrow> storage" where
  "storage_set st k v =
     (let settings = loadSettings st
      in saveSettings st (settings(k \<mapsto> v)))"

text \<open>A storage whose file does not exist yet, and one that holds the given settings.\<close>

definition fresh_store :: storage where
  "fresh_store = \<lparr> settingsFile = None, writable = True \<rparr>"

definition store_with :: "Settings \<Rightarrow> storage" where
  "store_with settings = \<lparr> settingsFile = Some settings, writable = True \<rparr>"

text \<open>The constructor, at clock reading \<open>now\<close>, and the load of the saved export flag.\<close>

definition initial_state :: "int \<Rightarrow> MonitoringState" where
  "initial_state now = \<lparr> lastGridFeedCheck = None, lastLoadSheddingAlertTime = None,
     lastResetAlertTime = None, lastDailySummaryDate = None, lastDataTimestamp = now,
     lastSystemOfflineAlertTime = None, isLoadShedding = False, systemResetDetected = False,
     systemOnline = True, lastKnownOutputPriority = None, gridFeedingEnabled = True,
     previousGridFeedStatus = True \<rparr>"

definition initializeGridFeedStatus :: "storage \<Rightarrow> MonitoringState \<Rightarrow> MonitoringState" where
  "initializeGridFeedStatus st s =
     (let savedStatus = storage_get st ''grid_feeding_enabled'' True
      in s\<lparr> gridFeedingEnabled := savedStatus, previousGridFeedStatus := savedStatus \<rparr>)"

section \<open>The checks\<close>

text \<open>
  Each check takes the clock reading of its own \<open>new Date()\<close> and returns the new state
  with the alerts it sent. One alert stands for the one \<open>Promise.allSettled\<close> fan-out to
  the three channels, which never rejects.
\<close>

definition updateDataTimestamp :: "int \<Rightarrow> MonitoringState \<Rightarrow> MonitoringState" where
  "updateDataTimestamp now s =
     (let s1 = s\<lparr> lastDataTimestamp := now \<rparr>
      in if \<not> systemOnline s1
         then s1\<lparr> systemOnline := True, lastSystemOfflineAlertTime := None \<rparr>
         else s1)"

definition checkSystemOffline ::
  "config \<Rightarrow> int \<Rightarrow> MonitoringState \<Rightarrow> MonitoringState \<times> alert list" where
  "checkSystemOffline cfg now s =
     (let timeSinceLastData = now - lastDataTimestamp s;
          thresholdMs = systemOfflineThresholdMinutes cfg * 60 * 1000
      in if timeSinceLastData > thresholdMs \<and> systemOnline s
         then (let minutesOffline = timeSinceLastData div 60000
               in (s\<lparr> systemOnline := False, lastSystemOfflineAlertTime := Some now \<rparr>,
                   [SystemOfflineAlert minutesOffline]))
         else (s, []))"

definition EXPECTED_OUTPUT_PRIORITY :: string where
  "EXPECTED_OUTPUT_PRIORITY = ''Solar Utility Bat''"

definition checkSystemReset ::
  "int \<Rightarrow> string \<Rightarrow> MonitoringState \<Rightarrow> MonitoringState \<times> alert list" where
  "checkSystemReset now outputPriority s =
     (if outputPriority = ''Unknown'' then (s, [])
      else
        (let isReset = (outputPriority \<noteq> EXPECTED_OUTPUT_PRIORITY);
             (s1, sent) =
               (if isReset then
                  (let shouldSendAlert =
                         (\<not> systemResetDetected s
                          \<or> (case lastResetAlertTime s of
                                None \<Rightarrow> True
                              | Some lastAlert \<Rightarrow> now - lastAlert \<ge> 60 * 60 * 1000))
                   in if shouldSendAlert
                      then (s\<lparr> systemResetDetected := True, lastResetAlertTime := Some now \<rparr>,
                            [SystemResetAlert outputPriority])
                      else (s, []))
                else (s\<lparr> systemResetDetected := False, lastResetAlertTime := None \<rparr>, []))
         in (s1\<lparr> lastKnownOutputPriority := Some outputPriority \<rparr>, sent)))"

definition isVoltageBelow :: "config \<Rightarrow> number \<Rightarrow> bool" where
  "isVoltageBelow cfg gridVoltage =
     (num_gt gridVoltage (Val 0)
      \<and> num_lt gridVoltage (Val (loadSheddingVoltageThreshold cfg)))"

definition checkLoadShedding ::
  "config \<Rightarrow> int \<Rightarrow> number \<Rightarrow> MonitoringState \<Rightarrow> MonitoringState \<times> alert list" where
  "checkLoadShedding cfg now gridVoltage s =
     (if isVoltageBelow cfg gridVoltage then
        (let shouldSendAlert =
               (\<not> isLoadShedding s
                \<or> (case lastLoadSheddingAlertTime s of
                      None \<Rightarrow> True
                    | Some lastAlert \<Rightarrow> now - lastAlert \<ge> 5 * 60 * 60 * 1000))
         in if shouldSendAlert
            then (s\<lparr> isLoadShedding := True, lastLoadSheddingAlertTime := Some now \<rparr>,
                  [LoadSheddingAlert gridVoltage])
            else (s, []))
      else if num_gt gridVoltage (Val (loadSheddingVoltageThreshold cfg))
      then (s\<lparr> isLoadShedding := False, lastLoadSheddingAlertTime := None \<rparr>, [])
      else (s, []))"

text \<open>
  \<open>checkGridFeed\<close> also writes the settings storage, so it works on the pair of the
  service state and the storage.
\<close>

definition checkGridFeed ::
  "config \<Rightarrow> int \<Rightarrow> bool \<Rightarrow> MonitoringState \<times> storage
     \<Rightarrow> (MonitoringState \<times> storage) \<times> alert list" where
  "checkGridFeed cfg now gridFeedEnabled w =
     (let s = fst w; st = snd w;
          wentFromOnToOff = (previousGridFeedStatus s \<and> \<not> gridFeedEnabled);
          (s1, sent) =
            (if wentFromOnToOff
             then (s\<lparr> lastGridFeedCheck := Some now \<rparr>, [GridFeedDisabledAlert])
             else if \<not> gridFeedEnabled then
               (let shouldSendReminder =
                      (case lastGridFeedCheck s of
                         None \<Rightarrow> True
                       | Some lastAlert \<Rightarrow>
                           now - lastAlert \<ge> gridFeedAlertIntervalHours cfg * 60 * 60 * 1000)
                in if shouldSendReminder
                   then (s\<lparr> lastGridFeedCheck := Some now \<rparr>, [GridFeedDisabledAlert])
                   else (s, []))
             else (s\<lparr> lastGridFeedCheck := None \<rparr>, []));
          s2 = s1\<lparr> previousGridFeedStatus := gridFeedingEnabled s1 \<rparr>;
          s3 = s2\<lparr> gridFeedingEnabled := gridFeedEnabled \<rparr>
      in ((s3, storage_set st ''grid_feeding_enabled'' gridFeedEnabled), sent))"

text \<open>A run of checks: the state is threaded through, the alerts of each check kept apart.\<close>

fun run_checks :: "('i \<Rightarrow> 's \<Rightarrow> 's \<times> alert list) \<Rightarrow> 's \<Rightarrow> 'i list \<Rightarrow> 's \<times> alert list list" where
  "run_checks step s [] = (s, [])"
| "run_checks step s (i # is) =
     (let (s1, a) = step i s; (s2, as) = run_checks step s1 is in (s2, a # as))"

definition reset_step :: "int \<times> string \<Rightarrow> MonitoringState \<Rightarrow> MonitoringState \<times> alert list" where
  "reset_step i s = checkSystemReset (fst i) (snd i) s"

definition shedding_step ::
  "config \<Rightarrow> int \<times> number \<Rightarrow> MonitoringState \<Rightarrow> MonitoringState \<times> alert list" where
  "shedding_step cfg i s = checkLoadShedding cfg (fst i) (snd i) s"

text \<open>The call of \<open>checkLoadShedding\<close> as \<open>runAllChecks\<close> guards it.\<close>

definition guarded_shedding_step ::
  "config \<Rightarrow> int \<times> number \<Rightarrow> MonitoringState \<Rightarrow> MonitoringState \<times> alert list" where
  "guarded_shedding_step cfg i s =
     (if num_gt (snd i) (Val 0) then checkLoadShedding cfg (fst i) (snd i) s else (s, []))"

definition feed_step ::
  "config \<Rightarrow> int \<times> bool \<Rightarrow> MonitoringState \<times> storage
     \<Rightarrow> (MonitoringState \<times> storage) \<times> alert list" where
  "feed_step cfg i w = checkGridFeed cfg (fst i) (snd i) w"

text \<open>Clock readings of a run of checks, each at least \<open>d\<close> after the one before.\<close>

fun spaced :: "int \<Rightarrow> int list \<Rightarrow> bool" where
  "spaced d [] = True"
| "spaced d [t] = True"
| "spaced d (t # u # ts) = (u - t \<ge> d \<and> spaced d (u # ts))"

section \<open>Reading the inverter\<close>

text \<open>
  A row of the daily data carries a \<open>field\<close> array of strings, which may be missing.
  The response of \<open>getDailyData\<close> is \<open>None\<close> when the call throws, and the list
  \<open>data?.dat?.row || []\<close> otherwise. \<open>parseFloat\<close> is the built-in of the language,
  taken as a parameter.
\<close>

type_synonym row = "string list option"

definition row_fields :: "row \<Rightarrow> string list" where
  "row_fields r = (case r of None \<Rightarrow> [] | Some f \<Rightarrow> f)"

record systemData =
  outputPriority :: string
  gridVoltage :: number
  success :: bool

definition getCurrentSystemData ::
  "(string \<Rightarrow> number) \<Rightarrow> int \<Rightarrow> row list option \<Rightarrow> MonitoringState
     \<Rightarrow> systemData \<times> MonitoringState" where
  "getCurrentSystemData parseFloat now resp s =
     (case resp of
        None \<Rightarrow> (\<lparr> outputPriority = ''Unknown'', gridVoltage = Val 0, success = False \<rparr>, s)
      | Some rows \<Rightarrow>
          if length rows = 0
          then (\<lparr> outputPriority = ''Unknown'', gridVoltage = Val 0, success = False \<rparr>, s)
          else
            (let s1 = updateDataTimestamp now s;
                 latestRow = rows ! (length rows - 1);
                 fields = row_fields latestRow;
                 priority = (if length fields > 38 \<and> truthy (fields ! 38)
                             then fields ! 38 else ''Unknown'');
                 utilityVoltage = (if length fields > 6 \<and> truthy (fields ! 6)
                                   then parseFloat (fields ! 6) else Val 0);
                 generatorVoltage = (if length fields > 8 \<and> truthy (fields ! 8)
                                     then parseFloat (fields ! 8) else Val 0);
                 voltage = (if num_eq utilityVoltage (Val 0)
                            then generatorVoltage else utilityVoltage)
             in (\<lparr> outputPriority = priority, gridVoltage = voltage, success = True \<rparr>, s1)))"

text \<open>
  The last device data is an array of \<open>{title, val}\<close> items (\<open>val\<close> may be undefined);
  the response is \<open>None\<close> when the call throws or \<open>dat\<close> is missing or no array.
\<close>

type_synonym device_item = "string \<times> string option"

definition deviceData_of :: "device_item list \<Rightarrow> (string \<rightharpoonup> string)" where
  "deviceData_of dat =
     fold (\<lambda>item m. case snd item of
                       None \<Rightarrow> m
                     | Some v \<Rightarrow> if truthy (fst item) then m(fst item \<mapsto> v) else m)
          dat Map.empty"

definition lookup_or_zero :: "(string \<rightharpoonup> string) \<Rightarrow> string \<Rightarrow> string" where
  "lookup_or_zero m k = (case m k of None \<Rightarrow> ''0'' | Some v \<Rightarrow> if truthy v then v else ''0'')"

definition getGridFeedStatus ::
  "(string \<Rightarrow> number) \<Rightarrow> nat \<Rightarrow> device_item list option \<Rightarrow> storage \<Rightarrow> bool" where
  "getGridFeedStatus parseFloat currentHour resp st =
     (case resp of
        None \<Rightarrow> storage_get st ''grid_feeding_enabled'' True
      | Some dat \<Rightarrow>
          if length dat = 0 then storage_get st ''grid_feeding_enabled'' True
          else
            (let deviceData = deviceData_of dat;
                 solarFeedPower = parseFloat (lookup_or_zero deviceData ''Solar Feed To Grid Power'');
                 pv1Power = parseFloat (lookup_or_zero deviceData ''PV1 Charging Power'');
                 pv2Power = parseFloat (lookup_or_zero deviceData ''PV2 Charging Power'');
                 pvPower = num_add pv1Power (if isNaN pv2Power then Val 0 else pv2Power);
                 isDaytime = (currentHour \<ge> 7 \<and> currentHour \<le> 17);
                 isProducing = num_gt pvPower (Val 500);
                 isFeeding = num_ge solarFeedPower (Val 50)
             in if isDaytime \<and> isProducing then isFeeding
                else
                  (let savedGridStatus = storage_get st ''grid_feeding_enabled'' True
                   in if isFeeding then True
                      else if savedGridStatus = False then False
                      else True)))"

text \<open>
  A stand-in for \<open>parseFloat\<close> on the strings of the examples: a string of decimal
  digits is read as the double of that whole number, as \<open>parseFloat\<close> reads it. Any other
  string is given as \<open>NaN\<close> here (\<open>parseFloat\<close> itself would still read a sign, a fraction or a
  numeric prefix); the examples hold digit strings only.
\<close>

definition is_digit :: "char \<Rightarrow> bool" where
  "is_digit c = (48 \<le> (of_char c :: nat) \<and> (of_char c :: nat) \<le> 57)"

definition parseFloat_digits :: "string \<Rightarrow> number" where
  "parseFloat_digits str =
     (if str \<noteq> [] \<and> list_all is_digit str
      then fl (of_nat (foldl (\<lambda>n c. 10 * n + (of_char c - 48)) 0 str))
      else NaN)"

section \<open>One pass of all checks\<close>

text \<open>
  What one pass reads from outside: the two API responses, the clock at each
  \<open>new Date()\<close> of the pass, and the local hour of day.
\<close>

record poll =
  dailyData :: "row list option"
  deviceLastData :: "device_item list option"
  fetchTime :: int
  resetTime :: int
  sheddingTime :: int
  feedTime :: int
  offlineTime :: int
  localHour :: nat

definition runAllChecks ::
  "config \<Rightarrow> (string \<Rightarrow> number) \<Rightarrow> poll \<Rightarrow> MonitoringState \<times> storage
     \<Rightarrow> (MonitoringState \<times> storage) \<times> alert list" where
  "runAllChecks cfg parseFloat p w =
     (let s = fst w; st = snd w;
          (sd, s1) = getCurrentSystemData parseFloat (fetchTime p) (dailyData p) s;
          (w4, sent) =
            (if success sd then
               (let (s2, a1) = (if outputPriority sd \<noteq> ''Unknown''
                                then checkSystemReset (resetTime p) (outputPriority sd) s1
                                else (s1, []));
                    (s3, a2) = (if num_gt (gridVoltage sd) (Val 0)
                                then checkLoadShedding cfg (sheddingTime p) (gridVoltage sd) s2
                                else (s2, []));
                    gridFeedEnabled = getGridFeedStatus parseFloat (localHour p) (deviceLastData p) st;
                    (w3, a3) = checkGridFeed cfg (feedTime p) gridFeedEnabled (s3, st)
                in (w3, a1 @ a2 @ a3))
             else ((s1, st), []));
          (s5, a4) = checkSystemOffline cfg (offlineTime p) (fst w4)
      in ((s5, snd w4), sent @ a4))"

text \<open>A pass whose fetch of the daily data fails: the call throws, or no row comes back.\<close>

definition fetch_failed :: "poll \<Rightarrow> bool" where
  "fetch_failed p = (case dailyData p of None \<Rightarrow> True | Some rows \<Rightarrow> rows = [])"

text \<open>A pass that reads the same clock value \<open>t\<close> at each of its steps.\<close>

definition poll_at :: "int \<Rightarrow> nat \<Rightarrow> row list option \<Rightarrow> device_item list option \<Rightarrow> poll" where
  "poll_at t h daily device =
     \<lparr> dailyData = daily, deviceLastData = device, fetchTime = t, resetTime = t,
       sheddingTime = t, feedTime = t, offlineTime = t, localHour = h \<rparr>"

definition is_offline_alert :: "alert \<Rightarrow> bool" where
  "is_offline_alert a = (case a of SystemOfflineAlert m \<Rightarrow> True | _ \<Rightarrow> False)"

text \<open>
  Example responses: daily data of one row of 48 fields with the given utility voltage
  and output priority; those of a healthy system, at 230 V and the expected priority; and
  device data of a producing, feeding inverter.
\<close>

definition daily_with :: "string \<Rightarrow> string \<Rightarrow> row list option" where
  "daily_with voltage priority = Some [Some ((replicate 48 [])[6 := voltage, 38 := priority])]"

definition normal_daily :: "row list option" where
  "normal_daily = daily_with ''230'' ''Solar Utility Bat''"

definition normal_device :: "device_item list option" where
  "normal_device =
     Some [(''Solar Feed To Grid Power'', Some ''600''), (''PV1 Charging Power'', Some ''1500''),
           (''PV2 Charging Power'', Some ''0'')]"

section \<open>Daily statistics\<close>

record DailySummaryData =
  date :: string
  production_kwh :: number
  load_kwh :: number
  grid_contribution_kwh :: number
  load_shedding_hours :: string
  standby_hours :: string
  missing_data_hours :: string
  system_off_hours :: string
  timestamp :: string

record totals =
  totalProductionWh :: number
  totalLoadWh :: number
  batteryModeHours :: number
  standbyModeHours :: number

definition intervalHours :: number where
  "intervalHours = num_div (Val 5) (Val 60)"

text \<open>One turn of the loop over the rows; a \<open>continue\<close> leaves the totals as they are.\<close>

definition stats_step :: "(string \<Rightarrow> number) \<Rightarrow> string \<Rightarrow> row \<Rightarrow> totals \<Rightarrow> totals" where
  "stats_step parseFloat dateStr rec acc =
     (let fields = row_fields rec
      in if length fields < 22 then acc
         else
           (let ts = fields ! 1
            in if \<not> truthy ts \<or> \<not> prefix dateStr ts then acc
               else
                 (let pvPower = (if truthy (fields ! 11) then parseFloat (fields ! 11) else Val 0);
                      loadPower = (if truthy (fields ! 21) then parseFloat (fields ! 21) else Val 0);
                      mode = (if length fields > 47 \<and> truthy (fields ! 47)
                              then fields ! 47 else []);
                      acc1 = acc\<lparr> totalProductionWh :=
                                     num_add (totalProductionWh acc) (num_mul pvPower intervalHours),
                                   totalLoadWh :=
                                     num_add (totalLoadWh acc) (num_mul loadPower intervalHours) \<rparr>
                  in if mode = ''Battery Mode''
                     then acc1\<lparr> batteryModeHours := num_add (batteryModeHours acc1) intervalHours \<rparr>
                     else if mode = ''Standby Mode''
                     then acc1\<lparr> standbyModeHours := num_add (standbyModeHours acc1) intervalHours \<rparr>
                     else acc1)))"

definition stats_loop :: "(string \<Rightarrow> number) \<Rightarrow> string \<Rightarrow> row list \<Rightarrow> totals" where
  "stats_loop parseFloat dateStr rows =
     fold (stats_step parseFloat dateStr) rows
       \<lparr> totalProductionWh = Val 0, totalLoadWh = Val 0,
         batteryModeHours = Val 0, standbyModeHours = Val 0 \<rparr>"

definition expectedDataPoints :: int where
  "expectedDataPoints = 288"

definition actualDataPoints :: "string \<Rightarrow> row list \<Rightarrow> int" where
  "actualDataPoints dateStr rows =
     int (length (filter (\<lambda>r. case r of
                                None \<Rightarrow> False
                              | Some f \<Rightarrow> length f \<ge> 22 \<and> truthy (f ! 1) \<and> prefix dateStr (f ! 1))
                         rows))"

definition missingDataPoints :: "string \<Rightarrow> row list \<Rightarrow> int" where
  "missingDataPoints dateStr rows = max 0 (expectedDataPoints - actualDataPoints dateStr rows)"

text \<open>Decimal text of a whole number, as a template string prints it.\<close>

definition digit_char :: "nat \<Rightarrow> char" where
  "digit_char n = ''0123456789'' ! (n mod 10)"

fun show_nat :: "nat \<Rightarrow> string" where
  "show_nat n =
     (if n < 10 then [digit_char n]
      else show_nat (n div 10) @ [digit_char n])"

declare show_nat.simps [simp del]

definition show_int :: "int \<Rightarrow> string" where
  "show_int i = (if i < 0 then CHR ''-'' # show_nat (nat (- i)) else show_nat (nat i))"

text \<open>
  A number as a template string prints it. The finite values printed here are whole
  numbers of hours and minutes; the exponent form that the language switches to from
  \<open>10 ^ 21\<close> on is left out.
\<close>

fun show_number :: "number \<Rightarrow> string" where
  "show_number (Val a) = show_int \<lfloor>a\<rfloor>"
| "show_number NaN = ''NaN''"
| "show_number PosInf = ''Infinity''"
| "show_number NegInf = ''-Infinity''"

definition formatHours :: "number \<Rightarrow> string" where
  "formatHours decimalHours =
     (let hrs = Math_floor decimalHours;
          mins = Math_round (num_mul (num_sub decimalHours hrs) (Val 60))
      in show_number hrs @ '' hr '' @ show_number mins @ '' min'')"

text \<open>
  \<open>getDailyStats\<close> returns \<open>null\<close> (here \<open>None\<close>) when the API call throws. The text of
  the moment of generation is a parameter.
\<close>

definition getDailyStats ::
  "(string \<Rightarrow> number) \<Rightarrow> string \<Rightarrow> string \<Rightarrow> row list option \<Rightarrow> DailySummaryData option" where
  "getDailyStats parseFloat generatedAt dateStr resp =
     (case resp of
        None \<Rightarrow> None
      | Some rows \<Rightarrow>
          (let acc = stats_loop parseFloat dateStr rows;
               missingDataHours =
                 num_div (num_mul (Val (of_int (missingDataPoints dateStr rows))) (Val 5)) (Val 60);
               productionKwh =
                 num_div
                   (Math_round (num_mul (num_div (totalProductionWh acc) (Val 1000)) (Val 100)))
                   (Val 100);
               loadKwh =
                 num_div
                   (Math_round (num_mul (num_div (totalLoadWh acc) (Val 1000)) (Val 100)))
                   (Val 100);
               gridContributionKwh =
                 num_div
                   (Math_round
                      (num_mul
                         (num_div (num_sub (totalProductionWh acc) (totalLoadWh acc)) (Val 1000))
                         (Val 100)))
                   (Val 100);
               totalSystemOff = num_add (standbyModeHours acc) missingDataHours
           in Some \<lparr> date = dateStr,
                     production_kwh = productionKwh,
                     load_kwh = loadKwh,
                     grid_contribution_kwh = gridContributionKwh,
                     load_shedding_hours = formatHours (batteryModeHours acc),
                     standby_hours = formatHours (standbyModeHours acc),
                     missing_data_hours = formatHours missingDataHours,
                     system_off_hours = formatHours totalSystemOff,
                     timestamp = generatedAt \<rparr>))"

subsection \<open>The dashboard's count of missing samples\<close>

text \<open>
  The dashboard page computes the missing samples of the day it shows in \<open>fetchData\<close>,
  from the number of points of the graph, the date shown, today's local date and the
  local time of day.
\<close>

definition DATA_INTERVAL_MINUTES :: int where
  "DATA_INTERVAL_MINUTES = 5"

definition EXPECTED_DATA_POINTS_PER_DAY :: int where
  "EXPECTED_DATA_POINTS_PER_DAY = 288"

definition fetchData_expectedDataPoints :: "string \<Rightarrow> string \<Rightarrow> int \<Rightarrow> int \<Rightarrow> int" where
  "fetchData_expectedDataPoints shownDate today hours minutes =
     (let isToday = (shownDate = today)
      in if isToday
         then (let minutesSinceMidnight = hours * 60 + minutes
               in minutesSinceMidnight div DATA_INTERVAL_MINUTES)
         else EXPECTED_DATA_POINTS_PER_DAY)"

definition fetchData_missingDataPoints :: "string \<Rightarrow> string \<Rightarrow> int \<Rightarrow> int \<Rightarrow> nat \<Rightarrow> int" where
  "fetchData_missingDataPoints shownDate today hours minutes graphLength =
     max 0 (fetchData_expectedDataPoints shownDate today hours minutes - int graphLength)"

text \<open>An example row of 48 fields: its timestamp, PV power, load power and mode.\<close>

definition sample_row :: "string \<Rightarrow> string \<Rightarrow> string \<Rightarrow> string \<Rightarrow> row" where
  "sample_row ts pv load mode = Some ((replicate 48 [])[1 := ts, 11 := pv, 21 := load, 47 := mode])"

section \<open>The specification's own formulas\<close>

text \<open>
  These definitions follow the words of the specification, not the code; the
  theorems below compare the code with them.
\<close>

text \<open>\<open>round(x, 2)\<close>: to two decimal places.\<close>

definition spec_round2 :: "number \<Rightarrow> number" where
  "spec_round2 x = num_div (Math_round (num_mul x (Val 100))) (Val 100)"

text \<open>
  \<open>expectedSampleCount\<close>: 288 for a completed past date, and
  \<open>floor(minutesElapsedSinceMidnight / 5)\<close> for the current date.
\<close>

definition spec_expectedSampleCount :: "bool \<Rightarrow> int \<Rightarrow> int" where
  "spec_expectedSampleCount isToday minutesElapsedSinceMidnight =
     (if isToday then minutesElapsedSinceMidnight div 5 else 288)"

text \<open>\<open>missingDuration = missingSampleCount \<times> 5 minutes\<close>, as hours and minutes.\<close>

definition spec_missingDuration :: "int \<Rightarrow> string" where
  "spec_missingDuration missingSampleCount =
     (let minutes = missingSampleCount * 5
      in show_int (minutes div 60) @ '' hr '' @ show_int (minutes mod 60) @ '' min'')"

text \<open>
  The export belief: in daytime with \<open>pvPower > 500W\<close> it is \<open>solarFeedPower \<ge> 50W\<close>;
  otherwise enabled if currently feeding any amount, else the persisted belief, enabled
  if there is none.
\<close>

definition spec_belief :: "bool \<Rightarrow> number \<Rightarrow> number \<Rightarrow> bool option \<Rightarrow> bool" where
  "spec_belief daytime pvPower solarFeedPower persisted =
     (if daytime \<and> num_gt pvPower (Val 500) then num_ge solarFeedPower (Val 50)
      else if num_gt solarFeedPower (Val 0) then True
      else (case persisted of None \<Rightarrow> True | Some b \<Rightarrow> b))"

section \<open>Properties of the rounding\<close>

lemma floor_rat_numeral_quotient:
  "\<lfloor>numeral a / numeral b :: rat\<rfloor> = numeral a div numeral b"
  "\<lfloor>- (numeral a / numeral b) :: rat\<rfloor> = - numeral a div numeral b"
  "\<lfloor>1 / numeral b :: rat\<rfloor> = 1 div numeral b"
  "\<lfloor>- (1 / numeral b) :: rat\<rfloor> = - 1 div numeral b"
proof -
  show "\<lfloor>numeral a / numeral b :: rat\<rfloor> = numeral a div numeral b"
    by (metis floor_divide_of_int_eq of_int_numeral)
  show "\<lfloor>- (numeral a / numeral b) :: rat\<rfloor> = - numeral a div numeral b"
    by (metis floor_divide_of_int_eq of_int_numeral of_int_minus minus_divide_left)
  show "\<lfloor>1 / numeral b :: rat\<rfloor> = 1 div numeral b"
    by (metis floor_divide_of_int_eq of_int_numeral of_int_1)
  show "\<lfloor>- (1 / numeral b) :: rat\<rfloor> = - 1 div numeral b"
    by (metis floor_divide_of_int_eq of_int_numeral of_int_1 of_int_minus minus_divide_left)
qed

lemma ilog2_less: "n < 2 \<Longrightarrow> ilog2 n = 0"
  by (simp add: ilog2.simps)

lemma ilog2_more: "\<not> n < 2 \<Longrightarrow> ilog2 n = Suc (ilog2 (n div 2))"
  by (subst ilog2.simps) simp

lemma clog2_less: "n \<le> 1 \<Longrightarrow> clog2 n = 0"
  by (simp add: clog2.simps)

lemma clog2_more: "\<not> n \<le> 1 \<Longrightarrow> clog2 n = Suc (clog2 ((n + 1) div 2))"
  by (subst clog2.simps) simp

text \<open>
  Overflow is decided against \<open>2 ^ 1024\<close>; a result below \<open>2 ^ 64\<close> in magnitude is
  settled before that power is looked at.
\<close>

lemma fl_cases:
  "fl x =
     (if \<bar>rnd x\<bar> < 18446744073709551616 then Val (rnd x)
      else if rnd x \<ge> 2 ^ 1024 then PosInf
      else if rnd x \<le> - (2 ^ 1024) then NegInf else Val (rnd x))"
proof -
  have "(2 :: rat) ^ 64 \<le> 2 ^ 1024"
    by (rule power_increasing) simp_all
  then have "(18446744073709551616 :: rat) \<le> 2 ^ 1024"
    by simp
  then show ?thesis
    by (auto simp add: fl_def Let_def)
qed

text \<open>The facts that evaluate a rounding at a given rational.\<close>

lemmas eval_rnd =
  fl_cases rnd_def exponent_def round_half_even_def pow2_def Let_def
  ilog2_less ilog2_more clog2_less clog2_more floor_rat_numeral_quotient

lemma ilog2_le: "1 \<le> n \<Longrightarrow> 2 ^ ilog2 n \<le> n"
proof (induction n rule: ilog2.induct)
  case (1 n)
  show ?case
  proof (cases "n < 2")
    case True
    with "1.prems" show ?thesis by (simp add: ilog2_less)
  next
    case False
    then have "2 ^ ilog2 (n div 2) \<le> n div 2"
      by (intro "1.IH") simp_all
    then have "2 * 2 ^ ilog2 (n div 2) \<le> 2 * (n div 2)"
      by simp
    also have "\<dots> \<le> n"
      by simp
    finally show ?thesis
      using False by (simp add: ilog2_more)
  qed
qed

lemma ilog2_less_bound: "n < 2 ^ Suc k \<Longrightarrow> ilog2 n \<le> k"
proof (induction k arbitrary: n)
  case 0
  then show ?case by (simp add: ilog2_less)
next
  case (Suc k)
  show ?case
  proof (cases "n < 2")
    case True
    then show ?thesis by (simp add: ilog2_less)
  next
    case False
    have "n div 2 < 2 ^ Suc k"
      using Suc.prems by simp
    then have "ilog2 (n div 2) \<le> k"
      by (rule Suc.IH)
    then show ?thesis
      using False by (simp add: ilog2_more)
  qed
qed

lemma clog2_ge: "n \<le> 2 ^ clog2 n"
proof (induction n rule: clog2.induct)
  case (1 n)
  show ?case
  proof (cases "n \<le> 1")
    case True
    then show ?thesis by (simp add: clog2_less)
  next
    case False
    then have "(n + 1) div 2 \<le> 2 ^ clog2 ((n + 1) div 2)"
      by (intro "1.IH") simp_all
    then have "2 * ((n + 1) div 2) \<le> 2 * 2 ^ clog2 ((n + 1) div 2)"
      by simp
    moreover have "n \<le> 2 * ((n + 1) div 2)"
      by presburger
    ultimately show ?thesis
      using False by (simp add: clog2_more)
  qed
qed

lemma pow2_pos: "0 < pow2 e"
  by (simp add: pow2_def)

lemma pow2_diff: "pow2 (e - 52) = pow2 e / 2 ^ 52"
proof -
  have "pow2 e = 2 powi e" for e
    by (simp add: pow2_def power_int_def inverse_eq_divide power_one_over)
  then show ?thesis
    by (simp add: power_int_diff)
qed

lemma exponent_lower:
  assumes "x \<noteq> 0"
  shows "pow2 (exponent x) \<le> \<bar>x\<bar>"
proof (cases "1 \<le> \<bar>x\<bar>")
  case True
  then have n: "1 \<le> nat \<lfloor>\<bar>x\<bar>\<rfloor>"
    by linarith
  have "(2 :: rat) ^ ilog2 (nat \<lfloor>\<bar>x\<bar>\<rfloor>) = of_nat (2 ^ ilog2 (nat \<lfloor>\<bar>x\<bar>\<rfloor>))"
    by simp
  also have "\<dots> \<le> of_nat (nat \<lfloor>\<bar>x\<bar>\<rfloor>)"
    using ilog2_le [OF n] by (simp only: of_nat_le_iff)
  also have "\<dots> \<le> \<bar>x\<bar>"
    using True by (simp add: of_nat_nat)
  finally show ?thesis
    using True by (simp add: exponent_def pow2_def)
next
  case False
  let ?a = "\<bar>x\<bar>"
  let ?m = "nat (- \<lfloor>- (1 / ?a)\<rfloor>)"
  have pos: "0 < ?a"
    using assms by simp
  have "1 / ?a \<le> of_int (- \<lfloor>- (1 / ?a)\<rfloor>)"
    by linarith
  also have "\<dots> \<le> of_nat ?m"
    by simp
  also have "\<dots> \<le> of_nat (2 ^ clog2 ?m)"
    using clog2_ge [of ?m] by (simp only: of_nat_le_iff)
  finally have "1 / ?a \<le> 2 ^ clog2 ?m"
    by simp
  then have "1 \<le> ?a * 2 ^ clog2 ?m"
    using pos by (simp add: field_simps)
  then have "1 / 2 ^ clog2 ?m \<le> ?a"
    by (simp add: field_simps)
  moreover have "pow2 (- int (clog2 ?m)) = 1 / 2 ^ clog2 ?m"
    by (simp add: pow2_def)
  ultimately show ?thesis
    using False by (simp add: exponent_def Let_def)
qed

lemma round_half_even_error: "\<bar>of_int (round_half_even y) - y\<bar> \<le> 1 / 2"
proof -
  have "of_int \<lfloor>y\<rfloor> \<le> y" "y < of_int \<lfloor>y\<rfloor> + 1"
    by linarith+
  then show ?thesis
    by (auto simp add: round_half_even_def Let_def)
qed

lemma round_half_even_of_int: "round_half_even (of_int k) = k"
  by (simp add: round_half_even_def)

text \<open>A rounding moves a value by at most one part in \<open>2 ^ 53\<close> of its magnitude plus one.\<close>

lemma rnd_error: "\<bar>rnd x - x\<bar> \<le> (\<bar>x\<bar> + 1) / 2 ^ 53"
proof (cases "x = 0")
  case True
  then show ?thesis by (simp add: rnd_def)
next
  case False
  define e where "e = max (exponent x) (- 1022)"
  define q where "q = pow2 (e - 52)"
  define n where "n = round_half_even (x / q)"
  have q: "0 < q"
    by (simp add: q_def pow2_pos)
  have r: "rnd x = of_int n * q"
    using False by (simp add: rnd_def Let_def e_def q_def n_def)
  have "pow2 (- 1022) \<le> 1"
    by (simp add: pow2_def)
  then have "pow2 e \<le> \<bar>x\<bar> + 1"
    using exponent_lower [OF False]
    by (cases "exponent x \<le> - 1022") (simp_all add: e_def max_def)
  then have qb: "q \<le> (\<bar>x\<bar> + 1) / 2 ^ 52"
    by (simp add: q_def pow2_diff divide_right_mono)
  have "\<bar>of_int n - x / q\<bar> \<le> 1 / 2"
    unfolding n_def by (rule round_half_even_error)
  then have "\<bar>of_int n - x / q\<bar> * q \<le> 1 / 2 * q"
    using q by (intro mult_right_mono) simp_all
  moreover have "(of_int n - x / q) * q = of_int n * q - x"
    using q by (simp add: field_simps)
  then have "\<bar>of_int n - x / q\<bar> * q = \<bar>of_int n * q - x\<bar>"
    using q by (metis abs_mult abs_of_pos)
  ultimately have "\<bar>rnd x - x\<bar> \<le> q / 2"
    by (simp add: r)
  also have "\<dots> \<le> (\<bar>x\<bar> + 1) / 2 ^ 52 / 2"
    using qb by simp
  finally show ?thesis
    by simp
qed

text \<open>An operation whose exact result is at most \<open>10 ^ 13\<close> in magnitude does not overflow.\<close>

lemma fl_bounded:
  assumes "\<bar>x\<bar> \<le> b" and "b \<le> 10000000000000"
  shows "\<exists>y. fl x = Val y \<and> \<bar>y - x\<bar> \<le> (b + 1) / 2 ^ 53"
proof -
  have "\<bar>rnd x - x\<bar> \<le> (\<bar>x\<bar> + 1) / 2 ^ 53"
    by (rule rnd_error)
  also have "\<dots> \<le> (b + 1) / 2 ^ 53"
    using assms(1) by (simp add: divide_right_mono)
  finally have err: "\<bar>rnd x - x\<bar> \<le> (b + 1) / 2 ^ 53" .
  have "(b + 1) / 2 ^ 53 \<le> 1"
    using assms(2) by simp
  with err assms have "\<bar>rnd x\<bar> < 18446744073709551616"
    by linarith
  then have "fl x = Val (rnd x)"
    by (simp add: fl_cases)
  with err show ?thesis
    by blast
qed

text \<open>A whole number below \<open>2 ^ 53\<close> is a double.\<close>

lemma rnd_of_nat:
  assumes "n < 2 ^ 53"
  shows "rnd (of_nat n) = of_nat n"
proof (cases "n = 0")
  case True
  then show ?thesis by (simp add: rnd_def)
next
  case False
  define k where "k = ilog2 n"
  have k: "k \<le> 52"
    unfolding k_def using assms ilog2_less_bound [of n 52] by simp
  have ex: "exponent (of_nat n) = int k"
    using False by (simp add: exponent_def k_def Suc_leI)
  have q: "pow2 (int k - 52) = 1 / 2 ^ (52 - k)"
    using k by (simp add: pow2_def nat_diff_distrib')
  have "(of_nat n :: rat) / (1 / 2 ^ (52 - k)) = of_int (int n * 2 ^ (52 - k))"
    by simp
  then have "round_half_even ((of_nat n :: rat) / (1 / 2 ^ (52 - k))) = int n * 2 ^ (52 - k)"
    by (simp only: round_half_even_of_int)
  then have "of_int (round_half_even ((of_nat n :: rat) / (1 / 2 ^ (52 - k)))) * (1 / 2 ^ (52 - k))
      = (of_nat n :: rat)"
    by simp
  moreover have "rnd (of_nat n) =
      of_int (round_half_even ((of_nat n :: rat) / pow2 (int k - 52))) * pow2 (int k - 52)"
    using False by (simp add: rnd_def Let_def ex)
  ultimately show ?thesis
    by (simp only: q)
qed

lemma fl_of_nat: "n < 2 ^ 53 \<Longrightarrow> fl (of_nat n) = Val (of_nat n)"
proof -
  assume n: "n < 2 ^ 53"
  have "(of_nat n :: rat) < of_nat (2 ^ 53)"
    using n by (simp only: of_nat_less_iff)
  then have "\<bar>of_nat n :: rat\<bar> < 18446744073709551616"
    by simp
  then show ?thesis
    by (simp add: fl_cases rnd_of_nat [OF n])
qed

lemma fl_numeral: "numeral k < (9007199254740992 :: nat) \<Longrightarrow> fl (numeral k) = Val (numeral k)"
  using fl_of_nat [of "numeral k"] by simp

lemma fl_zero: "fl 0 = Val 0"
  using fl_of_nat [of 0] by simp

lemma fl_one: "fl 1 = Val 1"
  using fl_of_nat [of 1] by simp

lemmas fl_whole = fl_numeral fl_zero fl_one

lemma fl_near:
  assumes "\<bar>x\<bar> \<le> b" and "b \<le> 10000000000000" and "(b + 1) / 2 ^ 53 \<le> eps"
  shows "\<exists>y. fl x = Val y \<and> \<bar>y - x\<bar> \<le> eps"
proof -
  from fl_bounded [OF assms(1) assms(2)]
  obtain y where "fl x = Val y" and "\<bar>y - x\<bar> \<le> (b + 1) / 2 ^ 53"
    by blast
  with assms(3) show ?thesis
    by (intro exI [of _ y]) simp
qed

lemma num_div_Val: "b \<noteq> 0 \<Longrightarrow> num_div (Val a) (Val b) = fl (a / b)"
  by simp

section \<open>Properties of the checks\<close>

lemma run_checks_append:
  "run_checks step s (xs @ ys) =
     (let (s1, as) = run_checks step s xs; (s2, bs) = run_checks step s1 ys in (s2, as @ bs))"
  by (induction xs arbitrary: s) (simp_all add: Let_def split: prod.splits)

text \<open>The definitions that a pass over example data unfolds to.\<close>

lemmas eval_pass =
  runAllChecks_def getCurrentSystemData_def updateDataTimestamp_def checkSystemReset_def
  checkLoadShedding_def isVoltageBelow_def checkGridFeed_def checkSystemOffline_def
  getGridFeedStatus_def deviceData_of_def lookup_or_zero_def storage_get_def storage_set_def
  loadSettings_def saveSettings_def fresh_store_def parseFloat_digits_def is_digit_def fl_whole
  truthy_def row_fields_def normal_daily_def daily_with_def normal_device_def poll_at_def
  initial_state_def default_config_def EXPECTED_OUTPUT_PRIORITY_def Let_def

subsection \<open>The reset monitor\<close>

lemma checkSystemReset_expected:
  "checkSystemReset t EXPECTED_OUTPUT_PRIORITY s =
     (s\<lparr> systemResetDetected := False, lastResetAlertTime := None,
         lastKnownOutputPriority := Some EXPECTED_OUTPUT_PRIORITY \<rparr>, [])"
  by (simp add: checkSystemReset_def EXPECTED_OUTPUT_PRIORITY_def)

lemma checkSystemReset_first:
  "p \<noteq> ''Unknown'' \<Longrightarrow> p \<noteq> EXPECTED_OUTPUT_PRIORITY \<Longrightarrow> \<not> systemResetDetected s \<Longrightarrow>
   checkSystemReset t p s =
     (s\<lparr> systemResetDetected := True, lastResetAlertTime := Some t,
         lastKnownOutputPriority := Some p \<rparr>, [SystemResetAlert p])"
  by (simp add: checkSystemReset_def)

lemma checkSystemReset_quiet:
  "p \<noteq> ''Unknown'' \<Longrightarrow> p \<noteq> EXPECTED_OUTPUT_PRIORITY \<Longrightarrow> systemResetDetected s \<Longrightarrow>
   lastResetAlertTime s = Some t0 \<Longrightarrow> t - t0 < 3600000 \<Longrightarrow>
   checkSystemReset t p s = (s\<lparr> lastKnownOutputPriority := Some p \<rparr>, [])"
  by (simp add: checkSystemReset_def)

lemma run_reset_expected:
  "ts \<noteq> [] \<Longrightarrow>
   run_checks reset_step s (map (\<lambda>t. (t, EXPECTED_OUTPUT_PRIORITY)) ts) =
     (s\<lparr> systemResetDetected := False, lastResetAlertTime := None,
         lastKnownOutputPriority := Some EXPECTED_OUTPUT_PRIORITY \<rparr>,
      replicate (length ts) [])"
proof (induction ts arbitrary: s)
  case Nil
  then show ?case by simp
next
  case (Cons t ts)
  show ?case
  proof (cases "ts = []")
    case True
    then show ?thesis by (simp add: reset_step_def checkSystemReset_expected)
  next
    case False
    then show ?thesis
      using Cons.IH [OF False] by (simp add: reset_step_def checkSystemReset_expected)
  qed
qed

text \<open>
  C8. The reset monitor does nothing at all on the priority \<open>Unknown\<close>: the state is
  unchanged and no alert is sent. And after one or more checks that read the expected
  priority \<open>Solar Utility Bat\<close> (at any times, from any state), three checks that read a
  different priority, 10 minutes apart, send exactly one alert: on the first of the three.
  The example that follows the theorem also runs the whole pass of all checks over such
  readings, one of them with the priority field unresolved.
\<close>

theorem reset_monitor_unknown_noop_and_single_alert:
  assumes "p \<noteq> ''Unknown''" and "p \<noteq> EXPECTED_OUTPUT_PRIORITY" and "ts \<noteq> []"
  shows "checkSystemReset now ''Unknown'' s = (s, [])
       \<and> snd (run_checks reset_step s
                (map (\<lambda>t. (t, EXPECTED_OUTPUT_PRIORITY)) ts
                 @ [(t, p), (t + 600000, p), (t + 1200000, p)]))
           = replicate (length ts) [] @ [[SystemResetAlert p], [], []]"
  using assms
  by (simp add: run_checks_append run_reset_expected reset_step_def checkSystemReset_first
        checkSystemReset_quiet checkSystemReset_def [of now "''Unknown''"])

theorem reset_monitor_unknown_noop_and_single_alert_witness:
  "''Utility Solar Bat'' \<noteq> ''Unknown''
   \<and> ''Utility Solar Bat'' \<noteq> EXPECTED_OUTPUT_PRIORITY
   \<and> [0, 600000, 1200000, 1800000, 2400000, 3000000, 3600000, 4200000, 4800000, 5400000]
       \<noteq> ([] :: int list)
   \<and> checkSystemReset 0 ''Unknown'' (initial_state 0) = (initial_state 0, [])
   \<and> snd (run_checks reset_step (initial_state 0)
            (map (\<lambda>t. (t, EXPECTED_OUTPUT_PRIORITY))
               [0, 600000, 1200000, 1800000, 2400000, 3000000, 3600000, 4200000, 4800000, 5400000]
             @ [(6000000, ''Utility Solar Bat''), (6000000 + 600000, ''Utility Solar Bat''),
                (6000000 + 1200000, ''Utility Solar Bat'')]))
       = replicate
           (length [0 :: int, 600000, 1200000, 1800000, 2400000, 3000000, 3600000, 4200000,
                    4800000, 5400000]) []
         @ [[SystemResetAlert ''Utility Solar Bat''], [], []]
   \<and> snd (run_checks (runAllChecks default_config parseFloat_digits)
            (initial_state 0, fresh_store)
            [poll_at 0 12 (daily_with ''230'' ''Solar Utility Bat'') normal_device,
             poll_at 600000 12 (daily_with ''230'' []) normal_device,
             poll_at 1200000 12 (daily_with ''230'' ''Utility Solar Bat'') normal_device,
             poll_at 1800000 12 (daily_with ''230'' ''Utility Solar Bat'') normal_device,
             poll_at 2400000 12 (daily_with ''230'' ''Utility Solar Bat'') normal_device])
       = [[], [], [SystemResetAlert ''Utility Solar Bat''], [], []]"
proof -
  have h1: "''Utility Solar Bat'' \<noteq> ''Unknown''"
    by simp
  have h2: "''Utility Solar Bat'' \<noteq> EXPECTED_OUTPUT_PRIORITY"
    by (simp add: EXPECTED_OUTPUT_PRIORITY_def)
  have h3: "[0, 600000, 1200000, 1800000, 2400000, 3000000, 3600000, 4200000, 4800000, 5400000]
              \<noteq> ([] :: int list)"
    by simp
  have pass: "snd (run_checks (runAllChecks default_config parseFloat_digits)
                     (initial_state 0, fresh_store)
                     [poll_at 0 12 (daily_with ''230'' ''Solar Utility Bat'') normal_device,
                      poll_at 600000 12 (daily_with ''230'' []) normal_device,
                      poll_at 1200000 12 (daily_with ''230'' ''Utility Solar Bat'') normal_device,
                      poll_at 1800000 12 (daily_with ''230'' ''Utility Solar Bat'') normal_device,
                      poll_at 2400000 12 (daily_with ''230'' ''Utility Solar Bat'') normal_device])
                = [[], [], [SystemResetAlert ''Utility Solar Bat''], [], []]"
    by (simp add: eval_pass)
  show ?thesis
    using h1 h2 h3 pass
      reset_monitor_unknown_noop_and_single_alert [OF h1 h2 h3, of 0 "initial_state 0" 6000000]
    by blast
qed

subsection \<open>The undervoltage monitor\<close>

text \<open>
  C9, as the code has it. The condition of the undervoltage monitor is
  \<open>0 < gridVoltage < threshold\<close>, for every reading and every threshold: it holds for a
  finite reading strictly between 0 and the threshold and for nothing else, so not for
  0, for \<open>NaN\<close> or for an infinite reading. The threshold is 180 by default. With the
  threshold at 180, a reading of 0 leaves the state as it is and sends nothing, and over
  the readings 230, 230, 0, 0, 170, 170, from any state, the condition is false at the
  indices 0 to 3 and true at 4 and 5; the check at index 4 sends an alert, the checks at
  the indices 0 to 3 send none, and the check at index 5 sends the reminder exactly when
  it comes five hours or more after the check at index 4. This holds for
  \<open>checkLoadShedding\<close> called on each reading, and for its call as the pass of all checks
  guards it, which skips a reading of 0.
\<close>

theorem undervoltage_scenario:
  "(isVoltageBelow cfg v
      \<longleftrightarrow> (\<exists>x. v = Val x \<and> 0 < x \<and> x < loadSheddingVoltageThreshold cfg))
   \<and> loadSheddingVoltageThreshold default_config = 180
   \<and> (loadSheddingVoltageThreshold cfg = 180 \<longrightarrow>
        checkLoadShedding cfg t (Val 0) s = (s, [])
        \<and> map (isVoltageBelow cfg) [Val 230, Val 230, Val 0, Val 0, Val 170, Val 170]
            = [False, False, False, False, True, True]
        \<and> snd (run_checks (shedding_step cfg) s
                 [(t0, Val 230), (t1, Val 230), (t2, Val 0), (t3, Val 0),
                  (t4, Val 170), (t5, Val 170)])
            = [[], [], [], [], [LoadSheddingAlert (Val 170)],
               if t5 - t4 \<ge> 18000000 then [LoadSheddingAlert (Val 170)] else []]
        \<and> snd (run_checks (guarded_shedding_step cfg) s
                 [(t0, Val 230), (t1, Val 230), (t2, Val 0), (t3, Val 0),
                  (t4, Val 170), (t5, Val 170)])
            = [[], [], [], [], [LoadSheddingAlert (Val 170)],
               if t5 - t4 \<ge> 18000000 then [LoadSheddingAlert (Val 170)] else []])"
proof -
  have cond: "isVoltageBelow cfg v
      \<longleftrightarrow> (\<exists>x. v = Val x \<and> 0 < x \<and> x < loadSheddingVoltageThreshold cfg)"
    by (cases v) (simp_all add: isVoltageBelow_def)
  have dflt: "loadSheddingVoltageThreshold default_config = 180"
    by (simp add: default_config_def)
  have scen: "checkLoadShedding cfg t (Val 0) s = (s, [])
        \<and> map (isVoltageBelow cfg) [Val 230, Val 230, Val 0, Val 0, Val 170, Val 170]
            = [False, False, False, False, True, True]
        \<and> snd (run_checks (shedding_step cfg) s
                 [(t0, Val 230), (t1, Val 230), (t2, Val 0), (t3, Val 0),
                  (t4, Val 170), (t5, Val 170)])
            = [[], [], [], [], [LoadSheddingAlert (Val 170)],
               if t5 - t4 \<ge> 18000000 then [LoadSheddingAlert (Val 170)] else []]
        \<and> snd (run_checks (guarded_shedding_step cfg) s
                 [(t0, Val 230), (t1, Val 230), (t2, Val 0), (t3, Val 0),
                  (t4, Val 170), (t5, Val 170)])
            = [[], [], [], [], [LoadSheddingAlert (Val 170)],
               if t5 - t4 \<ge> 18000000 then [LoadSheddingAlert (Val 170)] else []]"
    if thr: "loadSheddingVoltageThreshold cfg = 180"
    by (simp add: thr isVoltageBelow_def checkLoadShedding_def shedding_step_def
          guarded_shedding_step_def)
  from cond dflt scen show ?thesis
    by blast
qed

theorem undervoltage_scenario_witness:
  "loadSheddingVoltageThreshold default_config = 180
   \<and> isVoltageBelow default_config (Val 170)
   \<and> \<not> isVoltageBelow default_config (Val 0)
   \<and> \<not> isVoltageBelow default_config (Val 180)
   \<and> \<not> isVoltageBelow default_config NaN
   \<and> snd (run_checks (shedding_step default_config) (initial_state 0)
            [(0, Val 230), (300000, Val 230), (600000, Val 0), (900000, Val 0),
             (1200000, Val 170), (1500000, Val 170)])
       = [[], [], [], [], [LoadSheddingAlert (Val 170)], []]
   \<and> snd (run_checks (runAllChecks default_config parseFloat_digits)
            (initial_state 0, fresh_store)
            [poll_at 0 12 (daily_with ''230'' ''Solar Utility Bat'') normal_device,
             poll_at 300000 12 (daily_with ''230'' ''Solar Utility Bat'') normal_device,
             poll_at 600000 12 (daily_with ''0'' ''Solar Utility Bat'') normal_device,
             poll_at 900000 12 (daily_with ''0'' ''Solar Utility Bat'') normal_device,
             poll_at 1200000 12 (daily_with ''170'' ''Solar Utility Bat'') normal_device,
             poll_at 1500000 12 (daily_with ''170'' ''Solar Utility Bat'') normal_device])
       = [[], [], [], [], [LoadSheddingAlert (Val 170)], []]"
proof -
  have thr: "loadSheddingVoltageThreshold default_config = 180"
    by (simp add: default_config_def)
  have c170: "isVoltageBelow default_config (Val 170)"
    using undervoltage_scenario [where cfg = default_config and v = "Val 170"]
    by (simp add: thr)
  have c0: "\<not> isVoltageBelow default_config (Val 0)"
    using undervoltage_scenario [where cfg = default_config and v = "Val 0"]
    by simp
  have c180: "\<not> isVoltageBelow default_config (Val 180)"
    using undervoltage_scenario [where cfg = default_config and v = "Val 180"]
    by (simp add: thr)
  have cnan: "\<not> isVoltageBelow default_config NaN"
    using undervoltage_scenario [where cfg = default_config and v = NaN]
    by simp
  have run: "snd (run_checks (shedding_step default_config) (initial_state 0)
            [(0, Val 230), (300000, Val 230), (600000, Val 0), (900000, Val 0),
             (1200000, Val 170), (1500000, Val 170)])
       = [[], [], [], [], [LoadSheddingAlert (Val 170)], []]"
    using thr undervoltage_scenario [where cfg = default_config and s = "initial_state 0"
        and ?t0.0 = 0 and ?t1.0 = 300000 and ?t2.0 = 600000 and ?t3.0 = 900000
        and ?t4.0 = 1200000 and ?t5.0 = 1500000]
    by simp
  have pass: "snd (run_checks (runAllChecks default_config parseFloat_digits)
                     (initial_state 0, fresh_store)
                     [poll_at 0 12 (daily_with ''230'' ''Solar Utility Bat'') normal_device,
                      poll_at 300000 12 (daily_with ''230'' ''Solar Utility Bat'') normal_device,
                      poll_at 600000 12 (daily_with ''0'' ''Solar Utility Bat'') normal_device,
                      poll_at 900000 12 (daily_with ''0'' ''Solar Utility Bat'') normal_device,
                      poll_at 1200000 12 (daily_with ''170'' ''Solar Utility Bat'') normal_device,
                      poll_at 1500000 12 (daily_with ''170'' ''Solar Utility Bat'') normal_device])
                = [[], [], [], [], [LoadSheddingAlert (Val 170)], []]"
    by (simp add: eval_pass)
  from thr c170 c0 c180 cnan run pass show ?thesis
    by blast
qed

text \<open>
  The sentence of C9 fails as it stands: it names no times, and when the second reading
  of 170 is taken five hours after the first, as after a run of failed fetches, which
  skip the undervoltage check, the checks at index 4 and at index 5 both send an alert.
\<close>

theorem undervoltage_counterexample:
  "snd (run_checks (shedding_step default_config) (initial_state 0)
          [(0, Val 230), (300000, Val 230), (600000, Val 0), (900000, Val 0),
           (1200000, Val 170), (19200000, Val 170)])
     = [[], [], [], [], [LoadSheddingAlert (Val 170)], [LoadSheddingAlert (Val 170)]]
   \<and> snd (run_checks (runAllChecks default_config parseFloat_digits)
            (initial_state 0, fresh_store)
            [poll_at 0 12 (daily_with ''230'' ''Solar Utility Bat'') normal_device,
             poll_at 300000 12 (daily_with ''230'' ''Solar Utility Bat'') normal_device,
             poll_at 600000 12 (daily_with ''0'' ''Solar Utility Bat'') normal_device,
             poll_at 900000 12 (daily_with ''0'' ''Solar Utility Bat'') normal_device,
             poll_at 1200000 12 (daily_with ''170'' ''Solar Utility Bat'') normal_device,
             poll_at 19200000 12 (daily_with ''170'' ''Solar Utility Bat'') normal_device])
     = [[], [], [], [], [LoadSheddingAlert (Val 170)], [LoadSheddingAlert (Val 170)]]"
  by (simp add: eval_pass shedding_step_def)

text \<open>
  C2, at the reading the code misses. A voltage equal to the threshold is no undervoltage
  (\<open>isVoltageBelow\<close> is false), yet \<open>checkLoadShedding\<close> clears the alarm only on a voltage
  strictly above the threshold: on a reading equal to the threshold the state stays as it
  was, active with its last alert time, and an undervoltage that comes back within five
  hours of that alert sends nothing. With the threshold at 180: undervoltage at 170, then
  180, then 170 again sends no alert on the recurrence, while the same run through 181
  does.
\<close>

theorem threshold_reading_does_not_clear:
  assumes "isVoltageBelow cfg v" and "isLoadShedding s"
    and "lastLoadSheddingAlertTime s = Some t0" and "t' - t0 < 18000000"
  shows "\<not> isVoltageBelow cfg (Val (loadSheddingVoltageThreshold cfg))
       \<and> checkLoadShedding cfg t (Val (loadSheddingVoltageThreshold cfg)) s = (s, [])
       \<and> snd (run_checks (shedding_step cfg) s
                [(t, Val (loadSheddingVoltageThreshold cfg)), (t', v)]) = [[], []]"
  using assms
  by (simp add: checkLoadShedding_def isVoltageBelow_def shedding_step_def)

theorem threshold_reading_does_not_clear_witness:
  "isVoltageBelow default_config (Val 170)
   \<and> \<not> isVoltageBelow default_config (Val 180)
   \<and> checkLoadShedding default_config 600000 (Val 180)
       ((initial_state 0)\<lparr> isLoadShedding := True, lastLoadSheddingAlertTime := Some 300000 \<rparr>)
     = ((initial_state 0)\<lparr> isLoadShedding := True, lastLoadSheddingAlertTime := Some 300000 \<rparr>, [])
   \<and> snd (run_checks (shedding_step default_config)
            ((initial_state 0)\<lparr> isLoadShedding := True, lastLoadSheddingAlertTime := Some 300000 \<rparr>)
            [(600000, Val 180), (900000, Val 170)]) = [[], []]
   \<and> snd (run_checks (shedding_step default_config) (initial_state 0)
            [(300000, Val 170), (600000, Val 180), (900000, Val 170)])
       = [[LoadSheddingAlert (Val 170)], [], []]
   \<and> snd (run_checks (shedding_step default_config) (initial_state 0)
            [(300000, Val 170), (600000, Val 181), (900000, Val 170)])
       = [[LoadSheddingAlert (Val 170)], [], [LoadSheddingAlert (Val 170)]]"
proof -
  let ?s = "(initial_state 0)\<lparr> isLoadShedding := True, lastLoadSheddingAlertTime := Some 300000 \<rparr>"
  have thr: "loadSheddingVoltageThreshold default_config = 180"
    by (simp add: default_config_def)
  have h1: "isVoltageBelow default_config (Val 170)"
    by (simp add: isVoltageBelow_def default_config_def)
  have h2: "isLoadShedding ?s" and h3: "lastLoadSheddingAlertTime ?s = Some 300000"
    by simp_all
  have h4: "(900000 :: int) - 300000 < 18000000"
    by simp
  note bug = threshold_reading_does_not_clear [OF h1 h2 h3 h4, of 600000, unfolded thr]
  have run1: "snd (run_checks (shedding_step default_config) (initial_state 0)
                     [(300000, Val 170), (600000, Val 180), (900000, Val 170)])
                = [[LoadSheddingAlert (Val 170)], [], []]"
    by (simp add: checkLoadShedding_def isVoltageBelow_def default_config_def shedding_step_def
          initial_state_def)
  have run2: "snd (run_checks (shedding_step default_config) (initial_state 0)
                     [(300000, Val 170), (600000, Val 181), (900000, Val 170)])
                = [[LoadSheddingAlert (Val 170)], [], [LoadSheddingAlert (Val 170)]]"
    by (simp add: checkLoadShedding_def isVoltageBelow_def default_config_def shedding_step_def
          initial_state_def)
  show ?thesis
    using h1 bug run1 run2 by blast
qed

subsection \<open>Reminders: what each monitor does while its condition lasts\<close>

lemma reset_step_pair: "reset_step (t, p) s = checkSystemReset t p s"
  by (simp add: reset_step_def)

lemma shedding_step_pair: "shedding_step cfg (t, v) s = checkLoadShedding cfg t v s"
  by (simp add: shedding_step_def)

lemma feed_step_pair: "feed_step cfg (t, b) w = checkGridFeed cfg t b w"
  by (simp add: feed_step_def)

lemma run_reset_quiet:
  "p \<noteq> ''Unknown'' \<Longrightarrow> p \<noteq> EXPECTED_OUTPUT_PRIORITY \<Longrightarrow> systemResetDetected s \<Longrightarrow>
   lastResetAlertTime s = Some t0 \<Longrightarrow> \<forall>t\<in>set ts. t - t0 < 3600000 \<Longrightarrow>
   snd (run_checks reset_step s (map (\<lambda>t. (t, p)) ts)) = replicate (length ts) []"
proof (induction ts arbitrary: s)
  case Nil
  then show ?case by simp
next
  case (Cons t ts)
  have step: "checkSystemReset t p s = (s\<lparr> lastKnownOutputPriority := Some p \<rparr>, [])"
    using Cons.prems by (simp add: checkSystemReset_quiet)
  have "snd (run_checks reset_step (s\<lparr> lastKnownOutputPriority := Some p \<rparr>)
               (map (\<lambda>t. (t, p)) ts)) = replicate (length ts) []"
    using Cons.prems by (intro Cons.IH) simp_all
  then show ?case
    by (simp add: reset_step_pair step case_prod_beta)
qed

lemma run_reset_under_cadence:
  assumes "p \<noteq> ''Unknown''" and "p \<noteq> EXPECTED_OUTPUT_PRIORITY" and "\<not> systemResetDetected s"
    and "\<forall>t\<in>set ts. t - t0 < 3600000"
  shows "snd (run_checks reset_step s (map (\<lambda>t. (t, p)) (t0 # ts)))
           = [SystemResetAlert p] # replicate (length ts) []"
  using assms
    run_reset_quiet [of p "s\<lparr> systemResetDetected := True, lastResetAlertTime := Some t0,
                             lastKnownOutputPriority := Some p \<rparr>" t0 ts]
  by (simp add: reset_step_pair checkSystemReset_first case_prod_beta)

lemma run_reset_spaced:
  "p \<noteq> ''Unknown'' \<Longrightarrow> p \<noteq> EXPECTED_OUTPUT_PRIORITY \<Longrightarrow>
   (systemResetDetected s \<longrightarrow>
      (case lastResetAlertTime s of None \<Rightarrow> True | Some l \<Rightarrow> t0 - l \<ge> 3600000)) \<Longrightarrow>
   spaced 3600000 (t0 # ts) \<Longrightarrow>
   snd (run_checks reset_step s (map (\<lambda>t. (t, p)) (t0 # ts)))
     = replicate (Suc (length ts)) [SystemResetAlert p]"
proof (induction ts arbitrary: s t0)
  case Nil
  then show ?case
    by (auto simp add: reset_step_pair checkSystemReset_def split: option.splits)
next
  case (Cons u ts)
  have step: "checkSystemReset t0 p s =
     (s\<lparr> systemResetDetected := True, lastResetAlertTime := Some t0,
         lastKnownOutputPriority := Some p \<rparr>, [SystemResetAlert p])"
    using Cons.prems by (auto simp add: checkSystemReset_def split: option.splits)
  have "snd (run_checks reset_step
               (s\<lparr> systemResetDetected := True, lastResetAlertTime := Some t0,
                   lastKnownOutputPriority := Some p \<rparr>)
               (map (\<lambda>t. (t, p)) (u # ts)))
     = replicate (Suc (length ts)) [SystemResetAlert p]"
    using Cons.prems by (intro Cons.IH) simp_all
  then show ?case
    by (simp add: reset_step_pair step case_prod_beta)
qed

lemma checkLoadShedding_first:
  "isVoltageBelow cfg v \<Longrightarrow> \<not> isLoadShedding s \<Longrightarrow>
   checkLoadShedding cfg t v s =
     (s\<lparr> isLoadShedding := True, lastLoadSheddingAlertTime := Some t \<rparr>, [LoadSheddingAlert v])"
  by (simp add: checkLoadShedding_def)

lemma checkLoadShedding_quiet:
  "isVoltageBelow cfg v \<Longrightarrow> isLoadShedding s \<Longrightarrow> lastLoadSheddingAlertTime s = Some t0 \<Longrightarrow>
   t - t0 < 18000000 \<Longrightarrow> checkLoadShedding cfg t v s = (s, [])"
  by (simp add: checkLoadShedding_def)

lemma run_shedding_quiet:
  "isVoltageBelow cfg v \<Longrightarrow> isLoadShedding s \<Longrightarrow> lastLoadSheddingAlertTime s = Some t0 \<Longrightarrow>
   \<forall>t\<in>set ts. t - t0 < 18000000 \<Longrightarrow>
   snd (run_checks (shedding_step cfg) s (map (\<lambda>t. (t, v)) ts)) = replicate (length ts) []"
  by (induction ts) (simp_all add: shedding_step_pair checkLoadShedding_quiet case_prod_beta)

lemma run_shedding_under_cadence:
  assumes "isVoltageBelow cfg v" and "\<not> isLoadShedding s" and "\<forall>t\<in>set ts. t - t0 < 18000000"
  shows "snd (run_checks (shedding_step cfg) s (map (\<lambda>t. (t, v)) (t0 # ts)))
           = [LoadSheddingAlert v] # replicate (length ts) []"
  using assms
    run_shedding_quiet [of cfg v
      "s\<lparr> isLoadShedding := True, lastLoadSheddingAlertTime := Some t0 \<rparr>" t0 ts]
  by (simp add: shedding_step_pair checkLoadShedding_first case_prod_beta)

lemma run_shedding_spaced:
  "isVoltageBelow cfg v \<Longrightarrow>
   (isLoadShedding s \<longrightarrow>
      (case lastLoadSheddingAlertTime s of None \<Rightarrow> True | Some l \<Rightarrow> t0 - l \<ge> 18000000)) \<Longrightarrow>
   spaced 18000000 (t0 # ts) \<Longrightarrow>
   snd (run_checks (shedding_step cfg) s (map (\<lambda>t. (t, v)) (t0 # ts)))
     = replicate (Suc (length ts)) [LoadSheddingAlert v]"
proof (induction ts arbitrary: s t0)
  case Nil
  then show ?case
    by (auto simp add: shedding_step_pair checkLoadShedding_def split: option.splits)
next
  case (Cons u ts)
  have step: "checkLoadShedding cfg t0 v s =
     (s\<lparr> isLoadShedding := True, lastLoadSheddingAlertTime := Some t0 \<rparr>, [LoadSheddingAlert v])"
    using Cons.prems by (auto simp add: checkLoadShedding_def split: option.splits)
  have "snd (run_checks (shedding_step cfg)
               (s\<lparr> isLoadShedding := True, lastLoadSheddingAlertTime := Some t0 \<rparr>)
               (map (\<lambda>t. (t, v)) (u # ts)))
     = replicate (Suc (length ts)) [LoadSheddingAlert v]"
    using Cons.prems by (intro Cons.IH) simp_all
  then show ?case
    by (simp add: shedding_step_pair step case_prod_beta)
qed

lemma checkGridFeed_disabled_due:
  "(case lastGridFeedCheck (fst w) of None \<Rightarrow> True
    | Some l \<Rightarrow> t - l \<ge> gridFeedAlertIntervalHours cfg * 3600000) \<Longrightarrow>
   snd (checkGridFeed cfg t False w) = [GridFeedDisabledAlert]
   \<and> lastGridFeedCheck (fst (fst (checkGridFeed cfg t False w))) = Some t"
  by (cases w) (auto simp add: checkGridFeed_def Let_def split: option.splits)

lemma run_feed_spaced:
  "(case lastGridFeedCheck (fst w) of None \<Rightarrow> True
    | Some l \<Rightarrow> t0 - l \<ge> gridFeedAlertIntervalHours cfg * 3600000) \<Longrightarrow>
   spaced (gridFeedAlertIntervalHours cfg * 3600000) (t0 # ts) \<Longrightarrow>
   snd (run_checks (feed_step cfg) w (map (\<lambda>t. (t, False)) (t0 # ts)))
     = replicate (Suc (length ts)) [GridFeedDisabledAlert]"
proof (induction ts arbitrary: w t0)
  case Nil
  then show ?case
    using checkGridFeed_disabled_due [OF Nil.prems(1)]
    by (simp add: feed_step_pair case_prod_beta)
next
  case (Cons u ts)
  note due = checkGridFeed_disabled_due [OF Cons.prems(1)]
  have "snd (run_checks (feed_step cfg) (fst (checkGridFeed cfg t0 False w))
               (map (\<lambda>t. (t, False)) (u # ts)))
     = replicate (Suc (length ts)) [GridFeedDisabledAlert]"
    using Cons.prems due by (intro Cons.IH) simp_all
  then show ?case
    using due by (simp add: feed_step_pair case_prod_beta)
qed

lemma run_feed_quiet:
  "\<not> previousGridFeedStatus (fst w) \<Longrightarrow> \<not> gridFeedingEnabled (fst w) \<Longrightarrow>
   lastGridFeedCheck (fst w) = Some t0 \<Longrightarrow>
   \<forall>t\<in>set ts. t - t0 < gridFeedAlertIntervalHours cfg * 3600000 \<Longrightarrow>
   snd (run_checks (feed_step cfg) w (map (\<lambda>t. (t, False)) ts)) = replicate (length ts) []"
proof (induction ts arbitrary: w)
  case Nil
  then show ?case by simp
next
  case (Cons t ts)
  have step: "snd (checkGridFeed cfg t False w) = []"
    "\<not> previousGridFeedStatus (fst (fst (checkGridFeed cfg t False w)))"
    "\<not> gridFeedingEnabled (fst (fst (checkGridFeed cfg t False w)))"
    "lastGridFeedCheck (fst (fst (checkGridFeed cfg t False w))) = Some t0"
    using Cons.prems by (simp_all add: checkGridFeed_def Let_def)
  have "snd (run_checks (feed_step cfg) (fst (checkGridFeed cfg t False w))
               (map (\<lambda>t. (t, False)) ts)) = replicate (length ts) []"
    using Cons.prems step by (intro Cons.IH) simp_all
  then show ?case
    using step by (simp add: feed_step_pair case_prod_beta)
qed

lemma runAllChecks_fetch_failed:
  "fetch_failed p \<Longrightarrow>
   runAllChecks cfg pf p w =
     ((fst (checkSystemOffline cfg (offlineTime p) (fst w)), snd w),
      snd (checkSystemOffline cfg (offlineTime p) (fst w)))"
  by (auto simp add: fetch_failed_def runAllChecks_def getCurrentSystemData_def Let_def
        case_prod_beta split: option.splits)

lemma checkSystemOffline_when_offline:
  "\<not> systemOnline s \<Longrightarrow> checkSystemOffline cfg t s = (s, [])"
  by (simp add: checkSystemOffline_def)

lemma run_failed_offline_silent:
  "\<not> systemOnline (fst w) \<Longrightarrow> \<forall>p\<in>set ps. fetch_failed p \<Longrightarrow>
   snd (run_checks (runAllChecks cfg pf) w ps) = replicate (length ps) []"
  by (induction ps arbitrary: w)
     (simp_all add: runAllChecks_fetch_failed checkSystemOffline_when_offline case_prod_beta)

lemma run_failed_one_alert:
  assumes "systemOnline s"
    and "offlineTime q0 - lastDataTimestamp s > systemOfflineThresholdMinutes cfg * 60 * 1000"
    and "\<forall>q\<in>set (q0 # qs). fetch_failed q"
  shows "snd (run_checks (runAllChecks cfg pf) (s, st) (q0 # qs))
           = [SystemOfflineAlert ((offlineTime q0 - lastDataTimestamp s) div 60000)]
             # replicate (length qs) []"
proof -
  let ?s1 = "s\<lparr> systemOnline := False, lastSystemOfflineAlertTime := Some (offlineTime q0) \<rparr>"
  have first: "checkSystemOffline cfg (offlineTime q0) s =
                 (?s1, [SystemOfflineAlert ((offlineTime q0 - lastDataTimestamp s) div 60000)])"
    using assms(1,2) by (simp add: checkSystemOffline_def Let_def)
  have rest: "snd (run_checks (runAllChecks cfg pf) (?s1, st) qs) = replicate (length qs) []"
    using assms(3) by (intro run_failed_offline_silent) simp_all
  show ?thesis
    using assms(3) rest by (simp add: runAllChecks_fetch_failed first case_prod_beta)
qed

text \<open>
  C1, as the code has it. Take each monitor inactive, and its condition true at every
  check of a run.
  \<^item> Reset and undervoltage monitors: when every later check is less than the cadence
    (1 hour, 5 hours) after the first, the first check alerts and no other does; when
    each check is at least the cadence after the one before, every check alerts.
  \<^item> Export-disabled monitor: when each check is at least the configured interval after
    the one before, every check alerts; and once the state has the export as disabled on
    the last two checks, no check within the interval of the last alert sends anything.
  \<^item> Offline monitor: over failed fetches it alerts once, on the first pass that finds
    the last data older than the threshold, and never again, whatever the spacing: it
    has no reminder.
\<close>

theorem debounce_as_implemented:
  assumes "p \<noteq> ''Unknown''" and "p \<noteq> EXPECTED_OUTPUT_PRIORITY"
    and "isVoltageBelow cfg v"
    and "\<not> systemResetDetected s" and "\<not> isLoadShedding s"
    and "lastGridFeedCheck s = None" and "systemOnline s"
    and "offlineTime q0 - lastDataTimestamp s > systemOfflineThresholdMinutes cfg * 60 * 1000"
    and "\<forall>q\<in>set (q0 # qs). fetch_failed q"
  shows "((\<forall>t\<in>set ts. t - t0 < 3600000) \<longrightarrow>
            snd (run_checks reset_step s (map (\<lambda>t. (t, p)) (t0 # ts)))
              = [SystemResetAlert p] # replicate (length ts) [])
       \<and> (spaced 3600000 (u0 # us) \<longrightarrow>
            snd (run_checks reset_step s (map (\<lambda>t. (t, p)) (u0 # us)))
              = replicate (Suc (length us)) [SystemResetAlert p])
       \<and> ((\<forall>t\<in>set ts. t - t0 < 18000000) \<longrightarrow>
            snd (run_checks (shedding_step cfg) s (map (\<lambda>t. (t, v)) (t0 # ts)))
              = [LoadSheddingAlert v] # replicate (length ts) [])
       \<and> (spaced 18000000 (u0 # us) \<longrightarrow>
            snd (run_checks (shedding_step cfg) s (map (\<lambda>t. (t, v)) (u0 # us)))
              = replicate (Suc (length us)) [LoadSheddingAlert v])
       \<and> (spaced (gridFeedAlertIntervalHours cfg * 3600000) (u0 # us) \<longrightarrow>
            snd (run_checks (feed_step cfg) (s, st) (map (\<lambda>t. (t, False)) (u0 # us)))
              = replicate (Suc (length us)) [GridFeedDisabledAlert])
       \<and> (\<not> previousGridFeedStatus sf \<and> \<not> gridFeedingEnabled sf
            \<and> lastGridFeedCheck sf = Some t0
            \<and> (\<forall>t\<in>set ts. t - t0 < gridFeedAlertIntervalHours cfg * 3600000) \<longrightarrow>
            snd (run_checks (feed_step cfg) (sf, st) (map (\<lambda>t. (t, False)) ts))
              = replicate (length ts) [])
       \<and> snd (run_checks (runAllChecks cfg pf) (s, st) (q0 # qs))
           = [SystemOfflineAlert ((offlineTime q0 - lastDataTimestamp s) div 60000)]
             # replicate (length qs) []"
proof (intro conjI impI)
  assume "\<forall>t\<in>set ts. t - t0 < 3600000"
  then show "snd (run_checks reset_step s (map (\<lambda>t. (t, p)) (t0 # ts)))
               = [SystemResetAlert p] # replicate (length ts) []"
    using assms(1,2,4) by (rule run_reset_under_cadence [rotated 3])
next
  assume "spaced 3600000 (u0 # us)"
  then show "snd (run_checks reset_step s (map (\<lambda>t. (t, p)) (u0 # us)))
               = replicate (Suc (length us)) [SystemResetAlert p]"
    using assms(1,2,4) by (intro run_reset_spaced) simp_all
next
  assume "\<forall>t\<in>set ts. t - t0 < 18000000"
  then show "snd (run_checks (shedding_step cfg) s (map (\<lambda>t. (t, v)) (t0 # ts)))
               = [LoadSheddingAlert v] # replicate (length ts) []"
    using assms(3,5) by (rule run_shedding_under_cadence [rotated 2])
next
  assume "spaced 18000000 (u0 # us)"
  then show "snd (run_checks (shedding_step cfg) s (map (\<lambda>t. (t, v)) (u0 # us)))
               = replicate (Suc (length us)) [LoadSheddingAlert v]"
    using assms(3,5) by (intro run_shedding_spaced) simp_all
next
  assume "spaced (gridFeedAlertIntervalHours cfg * 3600000) (u0 # us)"
  then show "snd (run_checks (feed_step cfg) (s, st) (map (\<lambda>t. (t, False)) (u0 # us)))
               = replicate (Suc (length us)) [GridFeedDisabledAlert]"
    using assms(6) by (intro run_feed_spaced) simp_all
next
  assume "\<not> previousGridFeedStatus sf \<and> \<not> gridFeedingEnabled sf
            \<and> lastGridFeedCheck sf = Some t0
            \<and> (\<forall>t\<in>set ts. t - t0 < gridFeedAlertIntervalHours cfg * 3600000)"
  then show "snd (run_checks (feed_step cfg) (sf, st) (map (\<lambda>t. (t, False)) ts))
               = replicate (length ts) []"
    using run_feed_quiet [of "(sf, st)" t0 ts cfg] by simp
next
  show "snd (run_checks (runAllChecks cfg pf) (s, st) (q0 # qs))
          = [SystemOfflineAlert ((offlineTime q0 - lastDataTimestamp s) div 60000)]
            # replicate (length qs) []"
    using assms(7,8,9) by (rule run_failed_one_alert)
qed

theorem debounce_as_implemented_witness:
  "isVoltageBelow default_config (Val 170)
   \<and> fetch_failed (poll_at 3600000 12 None None)
   \<and> fetch_failed (poll_at 7200000 13 (Some []) None)
   \<and> spaced 18000000 [0, 18000000, 36000000]
   \<and> snd (run_checks reset_step (initial_state 0)
            (map (\<lambda>t. (t, ''Utility Solar Bat'')) [0, 600000, 1200000]))
       = [[SystemResetAlert ''Utility Solar Bat''], [], []]
   \<and> snd (run_checks reset_step (initial_state 0)
            (map (\<lambda>t. (t, ''Utility Solar Bat'')) [0, 18000000, 36000000]))
       = [[SystemResetAlert ''Utility Solar Bat''], [SystemResetAlert ''Utility Solar Bat''],
          [SystemResetAlert ''Utility Solar Bat'']]
   \<and> snd (run_checks (shedding_step default_config) (initial_state 0)
            (map (\<lambda>t. (t, Val 170)) [0, 600000, 1200000]))
       = [[LoadSheddingAlert (Val 170)], [], []]
   \<and> snd (run_checks (shedding_step default_config) (initial_state 0)
            (map (\<lambda>t. (t, Val 170)) [0, 18000000, 36000000]))
       = [[LoadSheddingAlert (Val 170)], [LoadSheddingAlert (Val 170)],
          [LoadSheddingAlert (Val 170)]]
   \<and> snd (run_checks (feed_step default_config) (initial_state 0, fresh_store)
            (map (\<lambda>t. (t, False)) [0, 18000000, 36000000]))
       = [[GridFeedDisabledAlert], [GridFeedDisabledAlert], [GridFeedDisabledAlert]]
   \<and> snd (run_checks (feed_step default_config)
            ((initial_state 0)\<lparr> lastGridFeedCheck := Some 0, gridFeedingEnabled := False,
                                  previousGridFeedStatus := False \<rparr>, fresh_store)
            (map (\<lambda>t. (t, False)) [600000, 1200000]))
       = [[], []]
   \<and> snd (run_checks (runAllChecks default_config parseFloat_digits) (initial_state 0, fresh_store)
            [poll_at 3600000 12 None None, poll_at 7200000 13 (Some []) None])
       = [[SystemOfflineAlert 60], []]"
proof -
  have h1: "''Utility Solar Bat'' \<noteq> ''Unknown''"
    by simp
  have h2: "''Utility Solar Bat'' \<noteq> EXPECTED_OUTPUT_PRIORITY"
    by (simp add: EXPECTED_OUTPUT_PRIORITY_def)
  have h3: "isVoltageBelow default_config (Val 170)"
    by (simp add: isVoltageBelow_def default_config_def)
  have h4: "\<not> systemResetDetected (initial_state 0)"
    and h5: "\<not> isLoadShedding (initial_state 0)"
    and h6: "lastGridFeedCheck (initial_state 0) = None"
    and h7: "systemOnline (initial_state 0)"
    by (simp_all add: initial_state_def)
  have h8: "offlineTime (poll_at 3600000 12 None None) - lastDataTimestamp (initial_state 0)
              > systemOfflineThresholdMinutes default_config * 60 * 1000"
    by (simp add: poll_at_def initial_state_def default_config_def)
  have f1: "fetch_failed (poll_at 3600000 12 None None)"
    and f2: "fetch_failed (poll_at 7200000 13 (Some []) None)"
    by (simp_all add: fetch_failed_def poll_at_def)
  have h9: "\<forall>q\<in>set [poll_at 3600000 12 None None, poll_at 7200000 13 (Some []) None].
              fetch_failed q"
    using f1 f2 by simp
  have under1: "\<forall>t\<in>set [600000, 1200000 :: int]. t - 0 < 3600000"
    and under5: "\<forall>t\<in>set [600000, 1200000 :: int]. t - 0 < 18000000"
    by simp_all
  have sp1: "spaced 3600000 [0, 18000000, 36000000]"
    and sp5: "spaced 18000000 [0, 18000000, 36000000]"
    and spf: "spaced (gridFeedAlertIntervalHours default_config * 3600000) [0, 18000000, 36000000]"
    by (simp_all add: default_config_def)
  let ?sf = "(initial_state 0)\<lparr> lastGridFeedCheck := Some 0, gridFeedingEnabled := False,
                                   previousGridFeedStatus := False \<rparr>"
  have underf: "\<not> previousGridFeedStatus ?sf \<and> \<not> gridFeedingEnabled ?sf
                  \<and> lastGridFeedCheck ?sf = Some 0
                  \<and> (\<forall>t\<in>set [600000, 1200000 :: int].
                        t - 0 < gridFeedAlertIntervalHours default_config * 3600000)"
    by (simp add: default_config_def)
  note th = debounce_as_implemented [OF h1 h2 h3 h4 h5 h6 h7 h8 h9,
      where ts = "[600000, 1200000]" and ?t0.0 = 0 and ?u0.0 = 0 and us = "[18000000, 36000000]"
        and st = fresh_store and sf = ?sf and pf = parseFloat_digits]
  show ?thesis
    using th under1 under5 sp1 sp5 spf underf h3 f1 f2
    by (simp add: poll_at_def initial_state_def)
qed

text \<open>
  The sentence of C1 fails as it stands. Offline monitor: three failed passes one hour
  apart, the last data one hour old at the first, send one alert and no reminder. And
  the export-disabled monitor alerts on each of the first two checks that read
  "disabled", five minutes apart, well under its one-hour cadence.
\<close>

theorem debounce_counterexample:
  "snd (run_checks (runAllChecks default_config parseFloat_digits) (initial_state 0, fresh_store)
          [poll_at 3600000 12 None None, poll_at 7200000 13 None None,
           poll_at 10800000 14 None None])
     = [[SystemOfflineAlert 60], [], []]
   \<and> snd (run_checks (feed_step default_config) (initial_state 0, fresh_store)
            [(0, False), (300000, False), (600000, False)])
       = [[GridFeedDisabledAlert], [GridFeedDisabledAlert], []]"
  by (simp add: eval_pass feed_step_def)

subsection \<open>The offline monitor on a failed and on a recovered fetch\<close>

lemma checkSystemReset_keeps:
  "lastDataTimestamp (fst (checkSystemReset t p s)) = lastDataTimestamp s"
  "systemOnline (fst (checkSystemReset t p s)) = systemOnline s"
  "lastSystemOfflineAlertTime (fst (checkSystemReset t p s)) = lastSystemOfflineAlertTime s"
  by (simp_all add: checkSystemReset_def Let_def)

lemma checkLoadShedding_keeps:
  "lastDataTimestamp (fst (checkLoadShedding cfg t v s)) = lastDataTimestamp s"
  "systemOnline (fst (checkLoadShedding cfg t v s)) = systemOnline s"
  "lastSystemOfflineAlertTime (fst (checkLoadShedding cfg t v s)) = lastSystemOfflineAlertTime s"
  by (simp_all add: checkLoadShedding_def Let_def)

lemma checkGridFeed_keeps:
  "lastDataTimestamp (fst (fst (checkGridFeed cfg t b w))) = lastDataTimestamp (fst w)"
  "systemOnline (fst (fst (checkGridFeed cfg t b w))) = systemOnline (fst w)"
  "lastSystemOfflineAlertTime (fst (fst (checkGridFeed cfg t b w)))
     = lastSystemOfflineAlertTime (fst w)"
  by (simp_all add: checkGridFeed_def Let_def case_prod_beta)

lemma no_offline_alert_from_other_checks:
  "filter is_offline_alert (snd (checkSystemReset t p s)) = []"
  "filter is_offline_alert (snd (checkLoadShedding cfg t v s)) = []"
  "filter is_offline_alert (snd (checkGridFeed cfg t b w)) = []"
  by (simp_all add: checkSystemReset_def checkLoadShedding_def checkGridFeed_def Let_def
        case_prod_beta is_offline_alert_def)

lemma getCurrentSystemData_ok:
  "\<not> fetch_failed q \<Longrightarrow>
   success (fst (getCurrentSystemData pf t (dailyData q) s))
   \<and> snd (getCurrentSystemData pf t (dailyData q) s) = updateDataTimestamp t s"
  by (auto simp add: fetch_failed_def getCurrentSystemData_def Let_def split: option.splits)

lemma updateDataTimestamp_fields:
  "lastDataTimestamp (updateDataTimestamp t s) = t"
  "systemOnline (updateDataTimestamp t s)"
  "\<not> systemOnline s \<Longrightarrow> lastSystemOfflineAlertTime (updateDataTimestamp t s) = None"
  by (simp_all add: updateDataTimestamp_def Let_def)

lemma runAllChecks_ok_fields:
  assumes ok: "\<not> fetch_failed q"
    and quick: "offlineTime q - fetchTime q \<le> systemOfflineThresholdMinutes cfg * 60 * 1000"
  shows "lastDataTimestamp (fst (fst (runAllChecks cfg pf q w))) = fetchTime q"
    and "systemOnline (fst (fst (runAllChecks cfg pf q w)))"
    and "\<not> systemOnline (fst w) \<Longrightarrow>
           lastSystemOfflineAlertTime (fst (fst (runAllChecks cfg pf q w))) = None"
    and "filter is_offline_alert (snd (runAllChecks cfg pf q w)) = []"
  using getCurrentSystemData_ok [OF ok, of pf "fetchTime q" "fst w"] quick
  by (simp_all add: runAllChecks_def Let_def case_prod_beta checkSystemOffline_def
        checkGridFeed_keeps checkLoadShedding_keeps checkSystemReset_keeps
        updateDataTimestamp_fields no_offline_alert_from_other_checks)

lemma getCurrentSystemData_recover:
  assumes ok: "\<not> fetch_failed q" and off: "\<not> systemOnline s"
  shows "getCurrentSystemData pf t (dailyData q) s
       = getCurrentSystemData pf t (dailyData q)
           (s\<lparr> systemOnline := True, lastSystemOfflineAlertTime := None \<rparr>)"
  using ok off
  by (auto simp add: fetch_failed_def getCurrentSystemData_def Let_def updateDataTimestamp_def
        split: option.splits)

lemma runAllChecks_failed_alerts:
  assumes "fetch_failed p"
  shows "snd (runAllChecks cfg pf p w) =
           (if offlineTime p - lastDataTimestamp (fst w)
                 > systemOfflineThresholdMinutes cfg * 60 * 1000 \<and> systemOnline (fst w)
            then [SystemOfflineAlert ((offlineTime p - lastDataTimestamp (fst w)) div 60000)]
            else [])"
  by (simp add: runAllChecks_fetch_failed [OF assms] checkSystemOffline_def Let_def)

text \<open>
  C3, as the code has it. A pass whose fetch fails runs the offline check alone. It
  alerts, once, exactly when the last successful fetch is more than
  \<open>systemOfflineThresholdMinutes\<close> (10 by default) old and the system still counts as
  online; no other field of the state plays a part. So a failed fetch that follows a
  successful pass alerts on that same check only when it comes more than the threshold
  after that pass's fetch.
\<close>

theorem failed_fetch_alert_rule:
  assumes failed: "fetch_failed p" and ok: "\<not> fetch_failed q"
    and quick: "offlineTime q - fetchTime q \<le> systemOfflineThresholdMinutes cfg * 60 * 1000"
  shows "snd (runAllChecks cfg pf p (s, st)) =
           (if offlineTime p - lastDataTimestamp s > systemOfflineThresholdMinutes cfg * 60 * 1000
               \<and> systemOnline s
            then [SystemOfflineAlert ((offlineTime p - lastDataTimestamp s) div 60000)]
            else [])
       \<and> snd (runAllChecks cfg pf p (fst (runAllChecks cfg pf q (s, st)))) =
           (if offlineTime p - fetchTime q > systemOfflineThresholdMinutes cfg * 60 * 1000
            then [SystemOfflineAlert ((offlineTime p - fetchTime q) div 60000)]
            else [])"
  using runAllChecks_ok_fields(1,2) [OF ok quick, where pf = pf and w = "(s, st)"]
  by (simp add: runAllChecks_failed_alerts [OF failed])

theorem failed_fetch_alert_rule_witness:
  "fetch_failed (poll_at 900000 12 None None)
   \<and> \<not> fetch_failed (poll_at 0 12 normal_daily normal_device)
   \<and> offlineTime (poll_at 0 12 normal_daily normal_device)
         - fetchTime (poll_at 0 12 normal_daily normal_device)
       \<le> systemOfflineThresholdMinutes default_config * 60 * 1000
   \<and> snd (runAllChecks default_config parseFloat_digits (poll_at 900000 12 None None)
            (initial_state 0, fresh_store)) = [SystemOfflineAlert 15]
   \<and> snd (runAllChecks default_config parseFloat_digits (poll_at 900000 12 None None)
            (fst (runAllChecks default_config parseFloat_digits
                    (poll_at 0 12 normal_daily normal_device) (initial_state 0, fresh_store))))
       = [SystemOfflineAlert 15]"
proof -
  have failed: "fetch_failed (poll_at 900000 12 None None)"
    by (simp add: fetch_failed_def poll_at_def)
  have ok: "\<not> fetch_failed (poll_at 0 12 normal_daily normal_device)"
    by (simp add: fetch_failed_def poll_at_def normal_daily_def daily_with_def)
  have quick: "offlineTime (poll_at 0 12 normal_daily normal_device)
                 - fetchTime (poll_at 0 12 normal_daily normal_device)
               \<le> systemOfflineThresholdMinutes default_config * 60 * 1000"
    by (simp add: poll_at_def default_config_def)
  show ?thesis
    using failed ok quick
      failed_fetch_alert_rule [OF failed ok quick, of parseFloat_digits "initial_state 0" fresh_store]
    by (simp add: poll_at_def default_config_def initial_state_def)
qed

text \<open>
  The sentence of C3 fails as it stands: after two successful passes, a fetch that fails
  five minutes after the last of them sends no alert on that check.
\<close>

theorem failed_fetch_counterexample:
  "snd (run_checks (runAllChecks default_config parseFloat_digits) (initial_state 0, fresh_store)
          [poll_at 0 12 normal_daily normal_device,
           poll_at 300000 12 normal_daily normal_device,
           poll_at 600000 12 None None])
     = [[], [], []]"
  by (simp add: eval_pass)

text \<open>
  C4, as the code has it. On the first pass whose fetch succeeds while the system counts
  as offline, \<open>updateDataTimestamp\<close> stamps the time of the data, marks the system online
  and clears the time of the offline alert. The pass sends no alert of the offline
  monitor, and it ends exactly as it would have from a system that was online all along:
  nothing tells of the recovery, and the state holds no count of failures.
\<close>

theorem recovery_is_silent:
  assumes ok: "\<not> fetch_failed q" and off: "\<not> systemOnline s"
    and quick: "offlineTime q - fetchTime q \<le> systemOfflineThresholdMinutes cfg * 60 * 1000"
  shows "updateDataTimestamp (fetchTime q) s
           = s\<lparr> lastDataTimestamp := fetchTime q, systemOnline := True,
                lastSystemOfflineAlertTime := None \<rparr>
       \<and> lastDataTimestamp (fst (fst (runAllChecks cfg pf q (s, st)))) = fetchTime q
       \<and> systemOnline (fst (fst (runAllChecks cfg pf q (s, st))))
       \<and> lastSystemOfflineAlertTime (fst (fst (runAllChecks cfg pf q (s, st)))) = None
       \<and> filter is_offline_alert (snd (runAllChecks cfg pf q (s, st))) = []
       \<and> runAllChecks cfg pf q (s, st)
           = runAllChecks cfg pf q
               (s\<lparr> systemOnline := True, lastSystemOfflineAlertTime := None \<rparr>, st)"
proof -
  have "updateDataTimestamp (fetchTime q) s
          = s\<lparr> lastDataTimestamp := fetchTime q, systemOnline := True,
               lastSystemOfflineAlertTime := None \<rparr>"
    using off by (simp add: updateDataTimestamp_def Let_def)
  moreover have "runAllChecks cfg pf q (s, st)
                   = runAllChecks cfg pf q
                       (s\<lparr> systemOnline := True, lastSystemOfflineAlertTime := None \<rparr>, st)"
    by (simp add: runAllChecks_def getCurrentSystemData_recover [OF ok off])
  ultimately show ?thesis
    using runAllChecks_ok_fields [OF ok quick, where pf = pf and w = "(s, st)"] off by simp
qed

theorem recovery_is_silent_witness:
  "\<not> fetch_failed (poll_at 1500000 12 normal_daily normal_device)
   \<and> \<not> systemOnline
         ((initial_state 0)\<lparr> systemOnline := False, lastSystemOfflineAlertTime := Some 900000 \<rparr>)
   \<and> systemOnline (fst (fst (runAllChecks default_config parseFloat_digits
         (poll_at 1500000 12 normal_daily normal_device)
         ((initial_state 0)\<lparr> systemOnline := False, lastSystemOfflineAlertTime := Some 900000 \<rparr>,
          fresh_store))))
   \<and> lastSystemOfflineAlertTime (fst (fst (runAllChecks default_config parseFloat_digits
         (poll_at 1500000 12 normal_daily normal_device)
         ((initial_state 0)\<lparr> systemOnline := False, lastSystemOfflineAlertTime := Some 900000 \<rparr>,
          fresh_store)))) = None
   \<and> filter is_offline_alert (snd (runAllChecks default_config parseFloat_digits
         (poll_at 1500000 12 normal_daily normal_device)
         ((initial_state 0)\<lparr> systemOnline := False, lastSystemOfflineAlertTime := Some 900000 \<rparr>,
          fresh_store))) = []"
proof -
  let ?q = "poll_at 1500000 12 normal_daily normal_device"
  let ?s = "(initial_state 0)\<lparr> systemOnline := False, lastSystemOfflineAlertTime := Some 900000 \<rparr>"
  have ok: "\<not> fetch_failed ?q"
    by (simp add: fetch_failed_def poll_at_def normal_daily_def daily_with_def)
  have off: "\<not> systemOnline ?s"
    by simp
  have quick: "offlineTime ?q - fetchTime ?q \<le> systemOfflineThresholdMinutes default_config * 60 * 1000"
    by (simp add: poll_at_def default_config_def)
  show ?thesis
    using ok off recovery_is_silent [OF ok off quick, of parseFloat_digits fresh_store]
    by blast
qed

text \<open>
  The sentence of C4 fails as it stands: two failed passes, the first of which raises the
  offline alert, then a pass that succeeds. The pass of the recovery sends no alert.
\<close>

theorem recovery_counterexample:
  "snd (run_checks (runAllChecks default_config parseFloat_digits) (initial_state 0, fresh_store)
          [poll_at 900000 12 None None,
           poll_at 1200000 12 None None,
           poll_at 1500000 12 normal_daily normal_device])
     = [[SystemOfflineAlert 15], [], []]"
  by (simp add: eval_pass)

section \<open>Properties of the daily statistics\<close>

lemma floor_of_int_add_half: "\<lfloor>(of_int k :: rat) + 1 / 2\<rfloor> = k"
  by linarith

lemma show_nat_digit: "n < 10 \<Longrightarrow> show_nat n = [digit_char n]"
  by (simp add: show_nat.simps)

lemma show_nat_more: "\<not> n < 10 \<Longrightarrow> show_nat n = show_nat (n div 10) @ [digit_char n]"
  by (subst show_nat.simps) simp

lemmas eval_stats =
  getDailyStats_def stats_loop_def stats_step_def sample_row_def row_fields_def truthy_def
  parseFloat_digits_def is_digit_def intervalHours_def missingDataPoints_def
  actualDataPoints_def expectedDataPoints_def formatHours_def show_int_def
  show_nat_digit show_nat_more digit_char_def fl_whole eval_rnd

subsection \<open>Summaries of example days, in double arithmetic\<close>

text \<open>The summary of a day with one sample of 48 W of production and 72 W of load.\<close>

lemma daily_stats_one_sample:
  "getDailyStats parseFloat_digits ''g'' ''2025-10-08''
     (Some [sample_row ''2025-10-08 00:00:00'' ''48'' ''72'' ''Line Mode''])
   = Some \<lparr> date = ''2025-10-08'', production_kwh = Val 0, load_kwh = fl (1 / 100),
            grid_contribution_kwh = Val 0, load_shedding_hours = ''0 hr 0 min'',
            standby_hours = ''0 hr 0 min'', missing_data_hours = ''23 hr 55 min'',
            system_off_hours = ''23 hr 55 min'', timestamp = ''g'' \<rparr>"
  by (simp add: eval_stats)

lemma totals_one_sample:
  "stats_loop parseFloat_digits ''2025-10-08''
     [sample_row ''2025-10-08 00:00:00'' ''48'' ''72'' ''Line Mode'']
   = \<lparr> totalProductionWh = Val 4, totalLoadWh = Val 6,
       batteryModeHours = Val 0, standbyModeHours = Val 0 \<rparr>"
  by (simp add: eval_stats)

text \<open>
  One sample of 1740 W is 145 Wh. Divided by 1000 and multiplied by 100 in doubles it
  is a little less than 14.5, so the production is 0.14 kWh, where exact arithmetic
  would give 0.15.
\<close>

lemma daily_stats_rounds_in_doubles:
  "map_option production_kwh
     (getDailyStats parseFloat_digits ''g'' ''2025-10-08''
        (Some [sample_row ''2025-10-08 00:00:00'' ''1740'' ''0'' ''Line Mode'']))
   = Some (fl (14 / 100))"
  by (simp add: eval_stats)

text \<open>
  Twenty-four samples in battery mode add twelfths of an hour up to a little less than
  2, which the summary prints as 1 hour and 60 minutes.
\<close>

lemma replicate_24: "replicate 24 x =
  [x, x, x, x, x, x, x, x, x, x, x, x, x, x, x, x, x, x, x, x, x, x, x, x]"
  by (simp add: eval_nat_numeral)

lemma daily_stats_battery_hours:
  "map_option load_shedding_hours
     (getDailyStats parseFloat_digits ''g'' ''2025-10-08''
        (Some (replicate 24 (sample_row ''2025-10-08 00:00:00'' ''0'' ''0'' ''Battery Mode''))))
   = Some ''1 hr 60 min''"
  by (simp add: replicate_24) (simp add: eval_stats)

text \<open>
  A sample whose power fields read as infinite gives an infinite production and
  consumption, and a grid contribution that is not a number.
\<close>

lemma daily_stats_infinite_sample:
  "getDailyStats (\<lambda>s. PosInf) ''g'' ''2025-10-08''
     (Some [sample_row ''2025-10-08 00:00:00'' ''1e999'' ''1e999'' ''Line Mode''])
   = Some \<lparr> date = ''2025-10-08'', production_kwh = PosInf, load_kwh = PosInf,
            grid_contribution_kwh = NaN, load_shedding_hours = ''0 hr 0 min'',
            standby_hours = ''0 hr 0 min'', missing_data_hours = ''23 hr 55 min'',
            system_off_hours = ''23 hr 55 min'', timestamp = ''g'' \<rparr>"
  by (simp add: eval_stats inf_of_sign_def)

subsection \<open>Totals of a day of finite readings\<close>

text \<open>
  The totals stay finite and far below \<open>10 ^ 12\<close> Wh on any realistic day: with every
  power reading finite and at most \<open>10 ^ 6\<close> W in magnitude, each of up to \<open>10 ^ 6\<close> rows
  adds at most 100001 Wh to the magnitude of a total.
\<close>

lemma add_power:
  assumes P: "\<bar>P\<bar> \<le> of_nat n * 100001" and n: "n < 1000000" and p: "\<bar>p\<bar> \<le> 1000000"
  shows "\<exists>P'. num_add (Val P) (num_mul (Val p) intervalHours) = Val P'
               \<and> \<bar>P'\<bar> \<le> of_nat (Suc n) * 100001"
proof -
  have "\<bar>5 / 60 :: rat\<bar> \<le> 1"
    by simp
  then obtain ih where ih: "fl (5 / 60) = Val ih" and ihe: "\<bar>ih - 5 / 60\<bar> \<le> 1 / 1000"
    using fl_near [of "5 / 60" 1 "1 / 1000"] by auto
  have i: "intervalHours = Val ih"
    by (simp only: intervalHours_def num_div_Val ih)
  have "\<bar>ih\<bar> \<le> 1 / 10"
    using ihe by linarith
  then have "\<bar>p\<bar> * \<bar>ih\<bar> \<le> 1000000 * (1 / 10)"
    using p by (intro mult_mono) simp_all
  then have pb: "\<bar>p * ih\<bar> \<le> 100000"
    by (simp add: abs_mult)
  then obtain x where x: "fl (p * ih) = Val x" and xe: "\<bar>x - p * ih\<bar> \<le> 1 / 4"
    using fl_near [of "p * ih" 100000 "1 / 4"] by auto
  have "(of_nat n :: rat) \<le> 1000000"
    using n by simp
  then have "\<bar>P + x\<bar> \<le> 200000000000"
    using P pb xe by linarith
  then obtain P' where P': "fl (P + x) = Val P'" and Pe: "\<bar>P' - (P + x)\<bar> \<le> 1 / 4"
    using fl_near [of "P + x" 200000000000 "1 / 4"] by auto
  have "(of_nat (Suc n) :: rat) * 100001 = of_nat n * 100001 + 100001"
    by simp
  then have "\<bar>P'\<bar> \<le> of_nat (Suc n) * 100001"
    using P pb xe Pe by linarith
  moreover have "num_add (Val P) (num_mul (Val p) intervalHours) = Val P'"
    by (simp only: i num_mul.simps x num_add.simps P')
  ultimately show ?thesis
    by blast
qed

lemma stats_step_bounded:
  assumes pf: "\<forall>s. \<exists>p. pf s = Val p \<and> \<bar>p\<bar> \<le> 1000000"
    and n: "n < 1000000"
    and P: "totalProductionWh acc = Val P" "\<bar>P\<bar> \<le> of_nat n * 100001"
    and L: "totalLoadWh acc = Val L" "\<bar>L\<bar> \<le> of_nat n * 100001"
  shows "\<exists>P' L'. totalProductionWh (stats_step pf d rec acc) = Val P'
               \<and> \<bar>P'\<bar> \<le> of_nat (Suc n) * 100001
               \<and> totalLoadWh (stats_step pf d rec acc) = Val L'
               \<and> \<bar>L'\<bar> \<le> of_nat (Suc n) * 100001"
proof -
  let ?f = "row_fields rec"
  let ?pv = "if truthy (?f ! 11) then pf (?f ! 11) else Val 0"
  let ?ld = "if truthy (?f ! 21) then pf (?f ! 21) else Val 0"
  have more: "of_nat n * 100001 \<le> (of_nat (Suc n) :: rat) * 100001"
    by simp
  obtain p where p: "?pv = Val p" "\<bar>p\<bar> \<le> 1000000"
    using pf [rule_format, of "?f ! 11"] by (cases "truthy (?f ! 11)") auto
  obtain l where l: "?ld = Val l" "\<bar>l\<bar> \<le> 1000000"
    using pf [rule_format, of "?f ! 21"] by (cases "truthy (?f ! 21)") auto
  obtain P' where P': "num_add (Val P) (num_mul ?pv intervalHours) = Val P'"
    "\<bar>P'\<bar> \<le> of_nat (Suc n) * 100001"
    using add_power [OF P(2) n p(2)] by (auto simp only: p(1))
  obtain L' where L': "num_add (Val L) (num_mul ?ld intervalHours) = Val L'"
    "\<bar>L'\<bar> \<le> of_nat (Suc n) * 100001"
    using add_power [OF L(2) n l(2)] by (auto simp only: l(1))
  show ?thesis
  proof (cases "length ?f < 22 \<or> \<not> truthy (?f ! 1) \<or> \<not> prefix d (?f ! 1)")
    case True
    then have "stats_step pf d rec acc = acc"
      by (auto simp add: stats_step_def Let_def)
    with P L more show ?thesis
      by (metis order_trans)
  next
    case False
    then have "totalProductionWh (stats_step pf d rec acc)
                 = num_add (totalProductionWh acc) (num_mul ?pv intervalHours)"
      and "totalLoadWh (stats_step pf d rec acc)
                 = num_add (totalLoadWh acc) (num_mul ?ld intervalHours)"
      by (simp_all add: stats_step_def Let_def del: num_add.simps num_mul.simps)
    then show ?thesis
      using P' L' by (simp only: P(1) L(1)) blast
  qed
qed

lemma fold_stats_bounded:
  assumes pf: "\<forall>s. \<exists>p. pf s = Val p \<and> \<bar>p\<bar> \<le> 1000000"
  shows "n + length rows \<le> 1000000 \<Longrightarrow>
         totalProductionWh acc = Val P \<Longrightarrow> \<bar>P\<bar> \<le> of_nat n * 100001 \<Longrightarrow>
         totalLoadWh acc = Val L \<Longrightarrow> \<bar>L\<bar> \<le> of_nat n * 100001 \<Longrightarrow>
         \<exists>P' L'. totalProductionWh (fold (stats_step pf d) rows acc) = Val P'
               \<and> \<bar>P'\<bar> \<le> of_nat (n + length rows) * 100001
               \<and> totalLoadWh (fold (stats_step pf d) rows acc) = Val L'
               \<and> \<bar>L'\<bar> \<le> of_nat (n + length rows) * 100001"
proof (induction rows arbitrary: n acc P L)
  case Nil
  then show ?case
    by simp
next
  case (Cons rec rows)
  have n: "n < 1000000"
    using Cons.prems(1) by simp
  obtain P1 L1 where s: "totalProductionWh (stats_step pf d rec acc) = Val P1"
    "\<bar>P1\<bar> \<le> of_nat (Suc n) * 100001"
    "totalLoadWh (stats_step pf d rec acc) = Val L1"
    "\<bar>L1\<bar> \<le> of_nat (Suc n) * 100001"
    using stats_step_bounded [OF pf n Cons.prems(2) Cons.prems(3) Cons.prems(4) Cons.prems(5)]
    by blast
  have "Suc n + length rows \<le> 1000000"
    using Cons.prems(1) by simp
  from Cons.IH [OF this s] show ?case
    by simp
qed

lemma totals_bounded:
  assumes pf: "\<forall>s. \<exists>p. pf s = Val p \<and> \<bar>p\<bar> \<le> 1000000"
    and len: "length rows \<le> 1000000"
  shows "\<exists>P L. totalProductionWh (stats_loop pf d rows) = Val P \<and> \<bar>P\<bar> \<le> 1000000000000
             \<and> totalLoadWh (stats_loop pf d rows) = Val L \<and> \<bar>L\<bar> \<le> 1000000000000"
proof -
  let ?init = "\<lparr> totalProductionWh = Val 0, totalLoadWh = Val 0,
                  batteryModeHours = Val 0, standbyModeHours = Val 0 \<rparr>"
  have "0 + length rows \<le> 1000000"
    using len by simp
  moreover have "totalProductionWh ?init = Val 0" "totalLoadWh ?init = Val 0"
    by simp_all
  moreover have "\<bar>0 :: rat\<bar> \<le> of_nat 0 * 100001"
    by simp
  ultimately obtain P L where t: "totalProductionWh (fold (stats_step pf d) rows ?init) = Val P"
    "\<bar>P\<bar> \<le> of_nat (0 + length rows) * 100001"
    "totalLoadWh (fold (stats_step pf d) rows ?init) = Val L"
    "\<bar>L\<bar> \<le> of_nat (0 + length rows) * 100001"
    using fold_stats_bounded [OF pf, of 0 rows ?init 0 0 d] by blast
  have "(of_nat (0 + length rows) :: rat) \<le> 1000000"
    using len by simp
  then have "(of_nat (0 + length rows) :: rat) * 100001 \<le> 1000000 * 100001"
    by (intro mult_right_mono) simp_all
  then have "(of_nat (0 + length rows) :: rat) * 100001 \<le> 1000000000000"
    by simp
  with t have "\<bar>P\<bar> \<le> 1000000000000" "\<bar>L\<bar> \<le> 1000000000000"
    by linarith+
  with t(1) t(3) show ?thesis
    unfolding stats_loop_def by blast
qed

subsection \<open>The grid contribution against the difference of the rounded fields\<close>

text \<open>A total in Wh, divided by 1000 and multiplied by 100 in doubles, is near its tenth.\<close>

lemma scaled_total:
  assumes "\<bar>v\<bar> \<le> 3000000000000"
  shows "\<exists>w. num_mul (num_div (Val v) (Val 1000)) (Val 100) = Val w \<and> \<bar>w - v / 10\<bar> \<le> 1 / 1000"
proof -
  have vb: "\<bar>v / 1000\<bar> \<le> 3000000000"
    using assms by simp
  then obtain d where d: "fl (v / 1000) = Val d" and de: "\<bar>d - v / 1000\<bar> \<le> 1 / 1000000"
    using fl_near [of "v / 1000" 3000000000 "1 / 1000000"] by auto
  have "\<bar>d * 100\<bar> = \<bar>d\<bar> * 100"
    by (simp add: abs_mult)
  moreover have "\<bar>d\<bar> \<le> 3000000000 + 1 / 1000000"
    using de vb by linarith
  ultimately have "\<bar>d * 100\<bar> \<le> 300000000001"
    by linarith
  then obtain w where w: "fl (d * 100) = Val w" and we: "\<bar>w - d * 100\<bar> \<le> 1 / 10000"
    using fl_near [of "d * 100" 300000000001 "1 / 10000"] by auto
  have "\<bar>w - v / 10\<bar> \<le> 1 / 1000"
    using de we by linarith
  moreover have "num_mul (num_div (Val v) (Val 1000)) (Val 100) = Val w"
    by (simp add: d w)
  ultimately show ?thesis
    by blast
qed

lemma floor_near_int:
  fixes w :: rat
  assumes "\<bar>w - of_int k\<bar> < 1 / 2"
  shows "\<lfloor>w + 1 / 2\<rfloor> = k"
  using assms by linarith

lemma round_near_diff:
  fixes a b c :: rat
  assumes "\<bar>c - (a - b)\<bar> \<le> 1 / 4"
  shows "\<bar>\<lfloor>c + 1 / 2\<rfloor> - (\<lfloor>a + 1 / 2\<rfloor> - \<lfloor>b + 1 / 2\<rfloor>)\<bar> \<le> 1"
proof -
  have a: "of_int \<lfloor>a + 1 / 2\<rfloor> \<le> a + 1 / 2" "a + 1 / 2 < of_int \<lfloor>a + 1 / 2\<rfloor> + 1"
    by linarith+
  have b: "of_int \<lfloor>b + 1 / 2\<rfloor> \<le> b + 1 / 2" "b + 1 / 2 < of_int \<lfloor>b + 1 / 2\<rfloor> + 1"
    by linarith+
  have c: "of_int \<lfloor>c + 1 / 2\<rfloor> \<le> c + 1 / 2" "c + 1 / 2 < of_int \<lfloor>c + 1 / 2\<rfloor> + 1"
    by linarith+
  have "(of_int \<lfloor>c + 1 / 2\<rfloor> :: rat) < of_int \<lfloor>a + 1 / 2\<rfloor> - of_int \<lfloor>b + 1 / 2\<rfloor> + 2"
    using a b c assms by linarith
  then have "(of_int \<lfloor>c + 1 / 2\<rfloor> :: rat) < of_int (\<lfloor>a + 1 / 2\<rfloor> - \<lfloor>b + 1 / 2\<rfloor> + 2)"
    by simp
  then have up: "\<lfloor>c + 1 / 2\<rfloor> < \<lfloor>a + 1 / 2\<rfloor> - \<lfloor>b + 1 / 2\<rfloor> + 2"
    by (simp only: of_int_less_iff)
  have "(of_int \<lfloor>a + 1 / 2\<rfloor> :: rat) - of_int \<lfloor>b + 1 / 2\<rfloor> < of_int \<lfloor>c + 1 / 2\<rfloor> + 2"
    using a b c assms by linarith
  then have "(of_int (\<lfloor>a + 1 / 2\<rfloor> - \<lfloor>b + 1 / 2\<rfloor>) :: rat) < of_int (\<lfloor>c + 1 / 2\<rfloor> + 2)"
    by simp
  then have lo: "\<lfloor>a + 1 / 2\<rfloor> - \<lfloor>b + 1 / 2\<rfloor> < \<lfloor>c + 1 / 2\<rfloor> + 2"
    by (simp only: of_int_less_iff)
  from up lo show ?thesis by linarith
qed

text \<open>
  The difference of two fields of two decimals, rounded to two decimals in doubles, is
  the double of the difference of their hundredths.
\<close>

lemma round2_of_difference:
  fixes A B :: int
  assumes "\<bar>of_int A :: rat\<bar> \<le> 100000000001" and "\<bar>of_int B :: rat\<bar> \<le> 100000000001"
  shows "spec_round2 (num_sub (fl (of_int A / 100)) (fl (of_int B / 100)))
           = fl (of_int (A - B) / 100)"
proof -
  have Ab: "\<bar>(of_int A :: rat) / 100\<bar> \<le> 10000000001"
    using assms(1) by simp
  then obtain p where p: "fl (of_int A / 100) = Val p"
    and pe: "\<bar>p - of_int A / 100\<bar> \<le> 1 / 100000"
    using fl_near [of "of_int A / 100" 10000000001 "1 / 100000"] by auto
  have Bb: "\<bar>(of_int B :: rat) / 100\<bar> \<le> 10000000001"
    using assms(2) by simp
  then obtain l where l: "fl (of_int B / 100) = Val l"
    and le: "\<bar>l - of_int B / 100\<bar> \<le> 1 / 100000"
    using fl_near [of "of_int B / 100" 10000000001 "1 / 100000"] by auto
  have pl: "\<bar>p - l\<bar> \<le> 20000000003"
    using pe le Ab Bb by linarith
  then obtain z where z: "fl (p - l) = Val z" and ze: "\<bar>z - (p - l)\<bar> \<le> 1 / 100000"
    using fl_near [of "p - l" 20000000003 "1 / 100000"] by auto
  have "\<bar>z * 100\<bar> = \<bar>z\<bar> * 100"
    by (simp add: abs_mult)
  moreover have "\<bar>z\<bar> \<le> 20000000003 + 1 / 100000"
    using ze pl by linarith
  ultimately have zb: "\<bar>z * 100\<bar> \<le> 2000000000301"
    by linarith
  then obtain w where w: "fl (z * 100) = Val w" and we: "\<bar>w - z * 100\<bar> \<le> 1 / 1000"
    using fl_near [of "z * 100" 2000000000301 "1 / 1000"] by auto
  have "(of_int (A - B) :: rat) = (of_int A / 100 - of_int B / 100) * 100"
    by simp
  then have "\<bar>w - of_int (A - B)\<bar> < 1 / 2"
    using we ze pe le by linarith
  then have "\<lfloor>w + 1 / 2\<rfloor> = A - B"
    by (rule floor_near_int)
  then show ?thesis
    by (simp add: spec_round2_def p l z w)
qed

text \<open>
  C5, as the code has it, in double arithmetic. The grid contribution is rounded from
  the unrounded totals: it is \<open>round((totalProductionWh - totalLoadWh) / 1000, 2)\<close>.
  When the two totals are finite and at most \<open>10 ^ 12\<close> Wh in magnitude, as they are on
  a day of finite readings by the lemma above, the production,
  the consumption and the grid contribution of the summary are the doubles nearest to
  \<open>A / 100\<close>, \<open>B / 100\<close> and \<open>C / 100\<close> for whole numbers \<open>A\<close>, \<open>B\<close> and \<open>C\<close>;
  \<open>round(productionKwh - consumptionKwh, 2)\<close> is the double nearest to \<open>(A - B) / 100\<close>;
  and \<open>C\<close> differs from \<open>A - B\<close> by at most 1: the grid contribution is the rounded
  difference of the two fields or one of its two neighbours in the second decimal.
\<close>

theorem grid_contribution_near_difference:
  assumes sm: "getDailyStats pf g d (Some rows) = Some sm"
    and P: "totalProductionWh (stats_loop pf d rows) = Val P" and Pb: "\<bar>P\<bar> \<le> 1000000000000"
    and L: "totalLoadWh (stats_loop pf d rows) = Val L" and Lb: "\<bar>L\<bar> \<le> 1000000000000"
  shows "grid_contribution_kwh sm
           = spec_round2 (num_div (num_sub (totalProductionWh (stats_loop pf d rows))
                                           (totalLoadWh (stats_loop pf d rows))) (Val 1000))
       \<and> (\<exists>A B C :: int.
             production_kwh sm = fl (of_int A / 100)
           \<and> load_kwh sm = fl (of_int B / 100)
           \<and> grid_contribution_kwh sm = fl (of_int C / 100)
           \<and> spec_round2 (num_sub (production_kwh sm) (load_kwh sm)) = fl (of_int (A - B) / 100)
           \<and> \<bar>C - (A - B)\<bar> \<le> 1)"
proof -
  have g2: "grid_contribution_kwh sm
              = spec_round2 (num_div (num_sub (totalProductionWh (stats_loop pf d rows))
                                              (totalLoadWh (stats_loop pf d rows))) (Val 1000))"
    using sm by (auto simp add: getDailyStats_def Let_def spec_round2_def)
  obtain a where a: "num_mul (num_div (Val P) (Val 1000)) (Val 100) = Val a"
    and ae: "\<bar>a - P / 10\<bar> \<le> 1 / 1000"
    using scaled_total [of P] Pb by auto
  obtain b where b: "num_mul (num_div (Val L) (Val 1000)) (Val 100) = Val b"
    and be: "\<bar>b - L / 10\<bar> \<le> 1 / 1000"
    using scaled_total [of L] Lb by auto
  have "\<bar>P - L\<bar> \<le> 2000000000000"
    using Pb Lb by linarith
  then obtain s where s: "fl (P - L) = Val s" and se: "\<bar>s - (P - L)\<bar> \<le> 1 / 1000"
    using fl_near [of "P - L" 2000000000000 "1 / 1000"] by auto
  have "\<bar>s\<bar> \<le> 3000000000000"
    using se Pb Lb by linarith
  then obtain c where c: "num_mul (num_div (Val s) (Val 1000)) (Val 100) = Val c"
    and ce: "\<bar>c - s / 10\<bar> \<le> 1 / 1000"
    using scaled_total [of s] by auto
  let ?A = "\<lfloor>a + 1 / 2\<rfloor>" and ?B = "\<lfloor>b + 1 / 2\<rfloor>" and ?C = "\<lfloor>c + 1 / 2\<rfloor>"
  have sub: "num_sub (Val P) (Val L) = Val s"
    by (simp add: s)
  have "production_kwh sm
          = num_div (Math_round (num_mul (num_div (totalProductionWh (stats_loop pf d rows))
                                                  (Val 1000)) (Val 100))) (Val 100)"
    using sm by (auto simp add: getDailyStats_def Let_def)
  then have pv: "production_kwh sm = fl (of_int ?A / 100)"
    by (simp only: P a Math_round.simps) simp
  have "load_kwh sm
          = num_div (Math_round (num_mul (num_div (totalLoadWh (stats_loop pf d rows))
                                                  (Val 1000)) (Val 100))) (Val 100)"
    using sm by (auto simp add: getDailyStats_def Let_def)
  then have lv: "load_kwh sm = fl (of_int ?B / 100)"
    by (simp only: L b Math_round.simps) simp
  have gv: "grid_contribution_kwh sm = fl (of_int ?C / 100)"
    by (simp only: g2 spec_round2_def P L sub c Math_round.simps) simp
  have Ab: "\<bar>of_int ?A :: rat\<bar> \<le> 100000000001"
    using ae Pb by linarith
  have Bb: "\<bar>of_int ?B :: rat\<bar> \<le> 100000000001"
    using be Lb by linarith
  have sp: "spec_round2 (num_sub (production_kwh sm) (load_kwh sm)) = fl (of_int (?A - ?B) / 100)"
    unfolding pv lv by (rule round2_of_difference [OF Ab Bb])
  have "\<bar>c - (a - b)\<bar> \<le> 1 / 4"
    using ae be ce se by linarith
  then have "\<bar>?C - (?A - ?B)\<bar> \<le> 1"
    by (rule round_near_diff)
  with g2 pv lv gv sp show ?thesis
    by blast
qed

theorem grid_contribution_near_difference_witness:
  "getDailyStats parseFloat_digits ''g'' ''2025-10-08''
     (Some [sample_row ''2025-10-08 00:00:00'' ''48'' ''72'' ''Line Mode''])
   = Some \<lparr> date = ''2025-10-08'', production_kwh = Val 0, load_kwh = fl (1 / 100),
            grid_contribution_kwh = Val 0, load_shedding_hours = ''0 hr 0 min'',
            standby_hours = ''0 hr 0 min'', missing_data_hours = ''23 hr 55 min'',
            system_off_hours = ''23 hr 55 min'', timestamp = ''g'' \<rparr>
   \<and> totalProductionWh (stats_loop parseFloat_digits ''2025-10-08''
        [sample_row ''2025-10-08 00:00:00'' ''48'' ''72'' ''Line Mode'']) = Val 4
   \<and> \<bar>4 :: rat\<bar> \<le> 1000000000000
   \<and> totalLoadWh (stats_loop parseFloat_digits ''2025-10-08''
        [sample_row ''2025-10-08 00:00:00'' ''48'' ''72'' ''Line Mode'']) = Val 6
   \<and> \<bar>6 :: rat\<bar> \<le> 1000000000000
   \<and> (\<exists>A B C :: int.
         Val 0 = fl (of_int A / 100)
       \<and> fl (1 / 100) = fl (of_int B / 100)
       \<and> Val 0 = fl (of_int C / 100)
       \<and> spec_round2 (num_sub (Val 0) (fl (1 / 100))) = fl (of_int (A - B) / 100)
       \<and> \<bar>C - (A - B)\<bar> \<le> 1)"
proof -
  let ?rows = "[sample_row ''2025-10-08 00:00:00'' ''48'' ''72'' ''Line Mode'']"
  let ?sm = "\<lparr> date = ''2025-10-08'', production_kwh = Val 0, load_kwh = fl (1 / 100),
                grid_contribution_kwh = Val 0, load_shedding_hours = ''0 hr 0 min'',
                standby_hours = ''0 hr 0 min'', missing_data_hours = ''23 hr 55 min'',
                system_off_hours = ''23 hr 55 min'', timestamp = ''g'' \<rparr>"
  have P: "totalProductionWh (stats_loop parseFloat_digits ''2025-10-08'' ?rows) = Val 4"
    by (simp add: totals_one_sample)
  have L: "totalLoadWh (stats_loop parseFloat_digits ''2025-10-08'' ?rows) = Val 6"
    by (simp add: totals_one_sample)
  have Pb: "\<bar>4 :: rat\<bar> \<le> 1000000000000" and Lb: "\<bar>6 :: rat\<bar> \<le> 1000000000000"
    by simp_all
  from grid_contribution_near_difference [OF daily_stats_one_sample P Pb L Lb]
  have "\<exists>A B C :: int.
         production_kwh ?sm = fl (of_int A / 100)
       \<and> load_kwh ?sm = fl (of_int B / 100)
       \<and> grid_contribution_kwh ?sm = fl (of_int C / 100)
       \<and> spec_round2 (num_sub (production_kwh ?sm) (load_kwh ?sm)) = fl (of_int (A - B) / 100)
       \<and> \<bar>C - (A - B)\<bar> \<le> 1"
    by blast
  then have "\<exists>A B C :: int.
         Val 0 = fl (of_int A / 100)
       \<and> fl (1 / 100) = fl (of_int B / 100)
       \<and> Val 0 = fl (of_int C / 100)
       \<and> spec_round2 (num_sub (Val 0) (fl (1 / 100))) = fl (of_int (A - B) / 100)
       \<and> \<bar>C - (A - B)\<bar> \<le> 1"
    by simp
  with daily_stats_one_sample P Pb L Lb show ?thesis
    by blast
qed

text \<open>
  The sentence of C5 fails as it stands. With one sample of 48 W of production and 72 W
  of load, production rounds to 0.00 kWh and consumption to 0.01 kWh, so that
  \<open>round(productionKwh - consumptionKwh, 2)\<close> is -0.01, while the grid contribution,
  rounded from -0.002 kWh, is 0. With one sample of 1248 W and 432 W the fields are 0.1
  and 0.04, the rounded difference is 0.06 and the grid contribution is 0.07.
\<close>

theorem energy_identity_counterexample:
  "map_option (\<lambda>sm. (grid_contribution_kwh sm,
                      spec_round2 (num_sub (production_kwh sm) (load_kwh sm)),
                      num_eq (grid_contribution_kwh sm)
                        (spec_round2 (num_sub (production_kwh sm) (load_kwh sm)))))
     (getDailyStats parseFloat_digits ''g'' ''2025-10-08''
        (Some [sample_row ''2025-10-08 00:00:00'' ''48'' ''72'' ''Line Mode'']))
     = Some (Val 0, fl (- (1 / 100)), False)
   \<and> map_option (\<lambda>sm. (production_kwh sm, load_kwh sm, grid_contribution_kwh sm,
                        spec_round2 (num_sub (production_kwh sm) (load_kwh sm)),
                        num_eq (grid_contribution_kwh sm)
                          (spec_round2 (num_sub (production_kwh sm) (load_kwh sm)))))
       (getDailyStats parseFloat_digits ''g'' ''2025-10-08''
          (Some [sample_row ''2025-10-08 00:00:00'' ''1248'' ''432'' ''Line Mode'']))
     = Some (fl (10 / 100), fl (4 / 100), fl (7 / 100), fl (6 / 100), False)"
  by (simp add: eval_stats spec_round2_def)

subsection \<open>The count of missing samples and its duration\<close>

lemma actualDataPoints_sample_rows:
  "actualDataPoints ''2025-10-08''
     (replicate n (sample_row ''2025-10-08 00:00:00'' ''1200'' ''900'' ''Line Mode'')) = int n"
  by (simp add: actualDataPoints_def filter_replicate sample_row_def truthy_def)

lemma missingDataPoints_range:
  "0 \<le> missingDataPoints d rows" "missingDataPoints d rows \<le> 288"
  by (simp_all add: missingDataPoints_def expectedDataPoints_def actualDataPoints_def)

text \<open>
  For every count of missing samples from 0 to 288, the duration that \<open>formatHours\<close>
  prints from the doubles is the exact number of hours and minutes.
\<close>

lemma formatHours_count:
  assumes k0: "0 \<le> k" and k288: "k \<le> 288"
  shows "formatHours (num_div (num_mul (Val (of_int k)) (Val 5)) (Val 60))
           = spec_missingDuration k"
proof -
  define q where "q = k div 12"
  define r where "r = k mod 12"
  have k: "k = 12 * q + r"
    by (simp add: q_def r_def)
  have r: "0 \<le> r" "r < 12"
    by (simp_all add: r_def)
  have q: "0 \<le> q" "q \<le> 24"
    using k0 k288 by (simp_all add: q_def)
  have kr: "(of_int k :: rat) = 12 * of_int q + of_int r"
    by (simp only: k of_int_add of_int_mult of_int_numeral)
  have "(of_int k :: rat) * 5 = of_nat (nat (k * 5))"
    using k0 by simp
  moreover have "nat (k * 5) < 2 ^ 53"
    using k288 by simp
  ultimately have m5: "fl (of_int k * 5) = Val (of_int k * 5)"
    by (simp only: fl_of_nat)
  have "\<exists>h. fl (of_int k * 5 / 60) = Val h \<and> \<lfloor>h\<rfloor> = q
          \<and> \<bar>h - of_int k / 12\<bar> \<le> 1 / 1000000000000"
  proof (cases "r = 0")
    case True
    then have "(of_int k :: rat) * 5 / 60 = of_nat (nat q)"
      using q kr by simp
    moreover have "nat q < 2 ^ 53"
      using q by simp
    ultimately have "fl (of_int k * 5 / 60) = Val (of_nat (nat q))"
      by (simp only: fl_of_nat)
    moreover have "(of_nat (nat q) :: rat) = of_int q"
      using q by simp
    moreover have "(of_int k :: rat) / 12 = of_int q"
      using True kr by simp
    ultimately show ?thesis
      by simp
  next
    case False
    have "\<bar>(of_int k :: rat) * 5 / 60\<bar> \<le> 120"
      using k0 k288 by simp
    then obtain h where h: "fl (of_int k * 5 / 60) = Val h"
      and he: "\<bar>h - of_int k * 5 / 60\<bar> \<le> 1 / 1000000000000"
      using fl_near [of "of_int k * 5 / 60" 120 "1 / 1000000000000"] by auto
    have "1 \<le> r" "r \<le> 11"
      using False r by simp_all
    then have "(1 :: rat) \<le> of_int r" "(of_int r :: rat) \<le> 11"
      by simp_all
    then have "of_int q \<le> h" "h < of_int q + 1"
      using he kr by linarith+
    then have "\<lfloor>h\<rfloor> = q"
      by linarith
    moreover have "\<bar>h - of_int k / 12\<bar> \<le> 1 / 1000000000000"
      using he by simp
    ultimately show ?thesis
      using h by blast
  qed
  then obtain h where h: "fl (of_int k * 5 / 60) = Val h" and hf: "\<lfloor>h\<rfloor> = q"
    and he: "\<bar>h - of_int k / 12\<bar> \<le> 1 / 1000000000000"
    by blast
  have hq: "\<bar>h - of_int q\<bar> \<le> 1"
    using hf by linarith
  then obtain f where f: "fl (h - of_int q) = Val f"
    and fe: "\<bar>f - (h - of_int q)\<bar> \<le> 1 / 1000000000000"
    using fl_near [of "h - of_int q" 1 "1 / 1000000000000"] by auto
  have "\<bar>f * 60\<bar> = \<bar>f\<bar> * 60"
    by (simp add: abs_mult)
  moreover have "\<bar>f\<bar> \<le> 1 + 1 / 1000000000000"
    using fe hq by linarith
  ultimately have "\<bar>f * 60\<bar> \<le> 61"
    by linarith
  then obtain m where m: "fl (f * 60) = Val m"
    and me: "\<bar>m - f * 60\<bar> \<le> 1 / 1000000000000"
    using fl_near [of "f * 60" 61 "1 / 1000000000000"] by auto
  have "(of_int (5 * r) :: rat) = 5 * of_int r"
    by simp
  then have "\<bar>m - of_int (5 * r)\<bar> < 1 / 2"
    using me fe he kr by linarith
  then have mr: "\<lfloor>m + 1 / 2\<rfloor> = 5 * r"
    by (rule floor_near_int)
  have s1: "num_mul (Val (of_int k)) (Val 5) = Val (of_int k * 5)"
    by (simp only: num_mul.simps m5)
  have "num_div (Val (of_int k * 5)) (Val 60) = fl (of_int k * 5 / 60)"
    by (rule num_div_Val) simp
  then have s2: "num_div (Val (of_int k * 5)) (Val 60) = Val h"
    by (simp only: h)
  have s3: "Math_floor (Val h) = Val (of_int q)"
    by (simp only: Math_floor.simps hf)
  have "h + - of_int q = h - of_int q"
    by simp
  then have s4: "num_sub (Val h) (Val (of_int q)) = Val f"
    by (simp only: num_sub.simps num_neg.simps num_add.simps f)
  have s5: "num_mul (Val f) (Val 60) = Val m"
    by (simp only: num_mul.simps m)
  have s6: "Math_round (Val m) = Val (of_int (5 * r))"
    by (simp only: Math_round.simps mr)
  have "formatHours (num_div (num_mul (Val (of_int k)) (Val 5)) (Val 60))
          = show_int q @ '' hr '' @ show_int (5 * r) @ '' min''"
    by (simp only: formatHours_def Let_def, simp only: s1, simp only: s2, simp only: s3,
        simp only: s4, simp only: s5, simp only: s6, simp only: show_number.simps floor_of_int)
  moreover have "k * 5 div 60 = q"
    using k r by linarith
  moreover have "k * 5 mod 60 = 5 * r"
    using k r by (simp add: mod_pos_pos_trivial)
  ultimately show ?thesis
    by (simp only: spec_missingDuration_def Let_def)
qed

lemma missing_data_hours_code:
  "map_option missing_data_hours (getDailyStats pf g d (Some rows))
     = Some (formatHours
               (num_div (num_mul (Val (of_int (missingDataPoints d rows))) (Val 5)) (Val 60)))"
  by (simp add: getDailyStats_def Let_def del: num_mul.simps num_div.simps)

lemma missing_data_hours_eq:
  "map_option missing_data_hours (getDailyStats pf g d (Some rows))
     = Some (spec_missingDuration (missingDataPoints d rows))"
  using formatHours_count [OF missingDataPoints_range, of d rows]
  by (simp add: getDailyStats_def Let_def del: num_mul.simps num_div.simps)

lemmas eval_duration =
  spec_missingDuration_def show_int_def show_nat_digit show_nat_more digit_char_def Let_def

text \<open>
  C6, as the code has it. The count of retained samples plus the count of missing ones is
  the larger of 288 and the count of retained samples: it is the expected 288 as long as
  no more than 288 samples are retained, and the missing count, never negative, is what
  the summary reports as its missing duration, at 5 minutes a sample: the text that
  \<open>formatHours\<close> prints from the doubles is the exact number of hours and minutes.
\<close>

theorem completeness_identity_amended:
  "expectedDataPoints = 288
   \<and> missingDataPoints d rows = max 0 (expectedDataPoints - actualDataPoints d rows)
   \<and> actualDataPoints d rows + missingDataPoints d rows
       = max expectedDataPoints (actualDataPoints d rows)
   \<and> (actualDataPoints d rows \<le> expectedDataPoints \<longrightarrow>
        actualDataPoints d rows + missingDataPoints d rows = expectedDataPoints)
   \<and> map_option missing_data_hours (getDailyStats pf g d (Some rows))
       = Some (formatHours
                 (num_div (num_mul (Val (of_int (missingDataPoints d rows))) (Val 5)) (Val 60)))
   \<and> map_option missing_data_hours (getDailyStats pf g d (Some rows))
       = Some (spec_missingDuration (missingDataPoints d rows))"
proof -
  have e: "expectedDataPoints = 288"
    by (simp add: expectedDataPoints_def)
  have m: "missingDataPoints d rows = max 0 (expectedDataPoints - actualDataPoints d rows)"
    by (simp add: missingDataPoints_def)
  have s: "actualDataPoints d rows + missingDataPoints d rows
             = max expectedDataPoints (actualDataPoints d rows)"
    by (simp add: missingDataPoints_def)
  have c: "actualDataPoints d rows \<le> expectedDataPoints \<longrightarrow>
             actualDataPoints d rows + missingDataPoints d rows = expectedDataPoints"
    by (simp add: missingDataPoints_def)
  show ?thesis
    by (intro conjI e m s c missing_data_hours_code missing_data_hours_eq)
qed

theorem completeness_identity_amended_witness:
  "actualDataPoints ''2025-10-08''
     (replicate 280 (sample_row ''2025-10-08 00:00:00'' ''1200'' ''900'' ''Line Mode''))
     \<le> expectedDataPoints
   \<and> actualDataPoints ''2025-10-08''
       (replicate 280 (sample_row ''2025-10-08 00:00:00'' ''1200'' ''900'' ''Line Mode'')) = 280
   \<and> missingDataPoints ''2025-10-08''
       (replicate 280 (sample_row ''2025-10-08 00:00:00'' ''1200'' ''900'' ''Line Mode'')) = 8
   \<and> map_option missing_data_hours
       (getDailyStats parseFloat_digits ''g'' ''2025-10-08''
          (Some (replicate 280 (sample_row ''2025-10-08 00:00:00'' ''1200'' ''900'' ''Line Mode''))))
     = Some ''0 hr 40 min''"
proof -
  let ?rows = "replicate 280 (sample_row ''2025-10-08 00:00:00'' ''1200'' ''900'' ''Line Mode'')"
  have a: "actualDataPoints ''2025-10-08'' ?rows = 280"
    using actualDataPoints_sample_rows [of 280] by simp
  note th = completeness_identity_amended [of "''2025-10-08''" ?rows parseFloat_digits "''g''"]
  have m: "missingDataPoints ''2025-10-08'' ?rows = 8"
    using th a by simp
  have f: "spec_missingDuration 8 = ''0 hr 40 min''"
    by (simp add: eval_duration)
  from th have "map_option missing_data_hours
                  (getDailyStats parseFloat_digits ''g'' ''2025-10-08'' (Some ?rows))
                = Some (spec_missingDuration (missingDataPoints ''2025-10-08'' ?rows))"
    by blast
  then have h: "map_option missing_data_hours
                  (getDailyStats parseFloat_digits ''g'' ''2025-10-08'' (Some ?rows))
                = Some ''0 hr 40 min''"
    by (simp only: m f)
  have e: "actualDataPoints ''2025-10-08'' ?rows \<le> expectedDataPoints"
    by (simp add: a expectedDataPoints_def)
  from e a m h show ?thesis
    by blast
qed

text \<open>
  The sentence of C6 fails as it stands: 289 rows of the date (the upstream repeats a
  timestamp) are all retained, none is missing, and 289 + 0 is not the expected 288.
\<close>

theorem completeness_identity_counterexample:
  "actualDataPoints ''2025-10-08''
     (replicate 289 (sample_row ''2025-10-08 00:00:00'' ''1200'' ''900'' ''Line Mode''))
   + missingDataPoints ''2025-10-08''
       (replicate 289 (sample_row ''2025-10-08 00:00:00'' ''1200'' ''900'' ''Line Mode''))
   = 289
   \<and> expectedDataPoints = 288"
  using actualDataPoints_sample_rows [of 289]
  by (simp add: missingDataPoints_def expectedDataPoints_def)

text \<open>
  C7, as the code has it. The dashboard's \<open>fetchData\<close> computes the expected count as
  the specification words it: 288 for a date other than today, and the whole number of
  5-minute intervals since local midnight for today; its missing count follows. The
  service's \<open>getDailyStats\<close>, which is called for yesterday, counts every date as a
  completed one: its missing count is taken from 288 whatever the time of day.
\<close>

theorem expected_count_by_caller:
  "fetchData_expectedDataPoints shown today hours minutes
     = spec_expectedSampleCount (shown = today) (hours * 60 + minutes)
   \<and> fetchData_missingDataPoints shown today hours minutes n
       = max 0 (spec_expectedSampleCount (shown = today) (hours * 60 + minutes) - int n)
   \<and> missingDataPoints d rows
       = max 0 (spec_expectedSampleCount False elapsed - actualDataPoints d rows)
   \<and> map_option missing_data_hours (getDailyStats pf g d (Some rows))
       = Some (formatHours
                 (num_div
                    (num_mul
                       (Val (of_int (max 0 (spec_expectedSampleCount False elapsed
                                              - actualDataPoints d rows))))
                       (Val 5))
                    (Val 60)))
   \<and> map_option missing_data_hours (getDailyStats pf g d (Some rows))
       = Some (spec_missingDuration
                 (max 0 (spec_expectedSampleCount False elapsed - actualDataPoints d rows)))"
proof -
  have e: "fetchData_expectedDataPoints shown today hours minutes
             = spec_expectedSampleCount (shown = today) (hours * 60 + minutes)"
    by (simp add: fetchData_expectedDataPoints_def spec_expectedSampleCount_def
          DATA_INTERVAL_MINUTES_def EXPECTED_DATA_POINTS_PER_DAY_def)
  have f: "fetchData_missingDataPoints shown today hours minutes n
             = max 0 (spec_expectedSampleCount (shown = today) (hours * 60 + minutes) - int n)"
    by (simp only: fetchData_missingDataPoints_def e)
  have m: "missingDataPoints d rows
             = max 0 (spec_expectedSampleCount False elapsed - actualDataPoints d rows)"
    by (simp add: missingDataPoints_def expectedDataPoints_def spec_expectedSampleCount_def)
  have c: "map_option missing_data_hours (getDailyStats pf g d (Some rows))
             = Some (formatHours
                       (num_div
                          (num_mul
                             (Val (of_int (max 0 (spec_expectedSampleCount False elapsed
                                                    - actualDataPoints d rows))))
                             (Val 5))
                          (Val 60)))"
    by (simp only: m [symmetric] missing_data_hours_code)
  have t: "map_option missing_data_hours (getDailyStats pf g d (Some rows))
             = Some (spec_missingDuration
                       (max 0 (spec_expectedSampleCount False elapsed - actualDataPoints d rows)))"
    by (simp only: m [symmetric] missing_data_hours_eq)
  show ?thesis
    by (intro conjI e f m c t)
qed

theorem expected_count_by_caller_witness:
  "fetchData_expectedDataPoints ''2025-10-08'' ''2025-10-08'' 0 10 = 2
   \<and> fetchData_missingDataPoints ''2025-10-08'' ''2025-10-08'' 0 10 2 = 0
   \<and> fetchData_expectedDataPoints ''2025-10-07'' ''2025-10-08'' 0 10 = 288
   \<and> fetchData_missingDataPoints ''2025-10-07'' ''2025-10-08'' 0 10 280 = 8
   \<and> missingDataPoints ''2025-10-08''
       (replicate 2 (sample_row ''2025-10-08 00:00:00'' ''1200'' ''900'' ''Line Mode'')) = 286"
  using expected_count_by_caller [of "''2025-10-08''" "''2025-10-08''" 0 10 2 "''2025-10-08''"
      "replicate 2 (sample_row ''2025-10-08 00:00:00'' ''1200'' ''900'' ''Line Mode'')" 10
      parseFloat_digits "''g''"]
    expected_count_by_caller [of "''2025-10-07''" "''2025-10-08''" 0 10 280 "''2025-10-08''"
      "[]" 10 parseFloat_digits "''g''"]
    actualDataPoints_sample_rows [of 2]
  by (simp add: spec_expectedSampleCount_def)

text \<open>
  The sentence of C7 fails as it stands for \<open>getDailyStats\<close>: asked for the current day
  ten minutes after midnight, with the two samples of the day present, it still expects
  288 samples and reports 286 of them missing, where the specification expects 2 and
  none missing.
\<close>

theorem expected_count_counterexample:
  "missingDataPoints ''2025-10-08''
     (replicate 2 (sample_row ''2025-10-08 00:00:00'' ''1200'' ''900'' ''Line Mode'')) = 286
   \<and> max 0 (spec_expectedSampleCount True 10
             - actualDataPoints ''2025-10-08''
                 (replicate 2 (sample_row ''2025-10-08 00:00:00'' ''1200'' ''900'' ''Line Mode'')))
       = 0
   \<and> map_option missing_data_hours
       (getDailyStats parseFloat_digits ''g'' ''2025-10-08''
          (Some (replicate 2 (sample_row ''2025-10-08 00:00:00'' ''1200'' ''900'' ''Line Mode''))))
     = Some ''23 hr 50 min''"
  using actualDataPoints_sample_rows [of 2]
  by (simp add: missing_data_hours_eq missingDataPoints_def expectedDataPoints_def
        spec_expectedSampleCount_def eval_duration)

section \<open>Properties of the export belief\<close>

lemma checkGridFeed_store:
  "snd (fst (checkGridFeed cfg t b w)) = storage_set (snd w) ''grid_feeding_enabled'' b"
  by (simp add: checkGridFeed_def Let_def case_prod_beta)

lemma runAllChecks_store:
  "\<not> fetch_failed q \<Longrightarrow>
   snd (fst (runAllChecks cfg pf q (s, st)))
     = storage_set st ''grid_feeding_enabled''
         (getGridFeedStatus pf (localHour q) (deviceLastData q) st)"
  using getCurrentSystemData_ok [of q pf "fetchTime q" s]
  by (simp add: runAllChecks_def Let_def case_prod_beta checkGridFeed_store)

lemma storage_get_set:
  "writable st \<Longrightarrow> storage_get (storage_set st k v) k d = v"
  by (simp add: storage_get_def storage_set_def loadSettings_def saveSettings_def)

text \<open>
  C10, as the code has it. With device data at hand, the belief is \<open>solarFeedPower \<ge> 50\<close>
  when the local hour is from 7 to 17 and \<open>pvPower > 500\<close>, the persisted belief playing no
  part; otherwise it is enabled when \<open>solarFeedPower \<ge> 50\<close>, and else the persisted belief,
  enabled if there is none. This is the rule of the specification except when the feed
  power is above 0 and below 50. Without device data the belief is the persisted one.
  When the settings file can be written, after \<open>checkGridFeed\<close> the store holds the
  belief it was given, and after a pass whose fetch succeeded it holds the belief that
  pass resolved.
\<close>

theorem export_belief_rule:
  assumes "dat \<noteq> []"
    and "feed = pf (lookup_or_zero (deviceData_of dat) ''Solar Feed To Grid Power'')"
    and "pv1 = pf (lookup_or_zero (deviceData_of dat) ''PV1 Charging Power'')"
    and "pv2 = pf (lookup_or_zero (deviceData_of dat) ''PV2 Charging Power'')"
    and "pv = num_add pv1 (if isNaN pv2 then Val 0 else pv2)"
  shows "getGridFeedStatus pf h (Some dat) st =
           (if 7 \<le> h \<and> h \<le> 17 \<and> num_gt pv (Val 500) then num_ge feed (Val 50)
            else num_ge feed (Val 50) \<or> storage_get st ''grid_feeding_enabled'' True)
       \<and> (num_ge feed (Val 50) \<or> \<not> num_gt feed (Val 0) \<longrightarrow>
            getGridFeedStatus pf h (Some dat) st
              = spec_belief (7 \<le> h \<and> h \<le> 17) pv feed
                  (loadSettings st ''grid_feeding_enabled''))
       \<and> getGridFeedStatus pf h None st = storage_get st ''grid_feeding_enabled'' True
       \<and> getGridFeedStatus pf h (Some []) st = storage_get st ''grid_feeding_enabled'' True
       \<and> (writable st \<longrightarrow>
            storage_get (snd (fst (checkGridFeed cfg t b (s, st)))) ''grid_feeding_enabled'' d
              = b)
       \<and> (writable st \<and> \<not> fetch_failed q \<longrightarrow>
            storage_get (snd (fst (runAllChecks cfg pf q (s, st)))) ''grid_feeding_enabled'' d
              = getGridFeedStatus pf (localHour q) (deviceLastData q) st)"
proof -
  have rule: "getGridFeedStatus pf h (Some dat) st =
                (if 7 \<le> h \<and> h \<le> 17 \<and> num_gt pv (Val 500) then num_ge feed (Val 50)
                 else num_ge feed (Val 50) \<or> storage_get st ''grid_feeding_enabled'' True)"
    using assms by (simp add: getGridFeedStatus_def Let_def)
  have spec: "getGridFeedStatus pf h (Some dat) st
                = spec_belief (7 \<le> h \<and> h \<le> 17) pv feed
                    (loadSettings st ''grid_feeding_enabled'')"
    if "num_ge feed (Val 50) \<or> \<not> num_gt feed (Val 0)"
    using that
    by (cases feed)
       (auto simp add: rule spec_belief_def storage_get_def split: option.splits)
  have none: "getGridFeedStatus pf h None st = storage_get st ''grid_feeding_enabled'' True"
    "getGridFeedStatus pf h (Some []) st = storage_get st ''grid_feeding_enabled'' True"
    by (simp_all add: getGridFeedStatus_def)
  have store: "storage_get (snd (fst (checkGridFeed cfg t b (s, st)))) ''grid_feeding_enabled'' d
                 = b"
    if "writable st"
    by (simp add: checkGridFeed_store storage_get_set [OF that])
  have pass: "storage_get (snd (fst (runAllChecks cfg pf q (s, st)))) ''grid_feeding_enabled'' d
                = getGridFeedStatus pf (localHour q) (deviceLastData q) st"
    if "writable st" and "\<not> fetch_failed q"
    by (simp add: runAllChecks_store [OF that(2)] storage_get_set [OF that(1)])
  from rule spec none store pass show ?thesis
    by blast
qed

lemma normal_device_values:
  "lookup_or_zero
     (deviceData_of [(''Solar Feed To Grid Power'', Some ''600''),
                     (''PV1 Charging Power'', Some ''1500''), (''PV2 Charging Power'', Some ''0'')])
     ''Solar Feed To Grid Power'' = ''600''"
  "lookup_or_zero
     (deviceData_of [(''Solar Feed To Grid Power'', Some ''600''),
                     (''PV1 Charging Power'', Some ''1500''), (''PV2 Charging Power'', Some ''0'')])
     ''PV1 Charging Power'' = ''1500''"
  "lookup_or_zero
     (deviceData_of [(''Solar Feed To Grid Power'', Some ''600''),
                     (''PV1 Charging Power'', Some ''1500''), (''PV2 Charging Power'', Some ''0'')])
     ''PV2 Charging Power'' = ''0''"
  by (simp_all add: lookup_or_zero_def deviceData_of_def truthy_def)

lemma parseFloat_digits_values:
  "parseFloat_digits ''600'' = Val 600"
  "parseFloat_digits ''1500'' = Val 1500"
  "parseFloat_digits ''0'' = Val 0"
  "parseFloat_digits ''30'' = Val 30"
  by (simp_all add: parseFloat_digits_def is_digit_def fl_whole)

theorem export_belief_rule_witness:
  "[(''Solar Feed To Grid Power'', Some ''600''), (''PV1 Charging Power'', Some ''1500''),
    (''PV2 Charging Power'', Some ''0'')] \<noteq> ([] :: device_item list)
   \<and> num_ge (Val 600) (Val 50)
   \<and> writable (store_with [''grid_feeding_enabled'' \<mapsto> False])
   \<and> \<not> fetch_failed (poll_at 0 12 normal_daily normal_device)
   \<and> getGridFeedStatus parseFloat_digits 12
       (Some [(''Solar Feed To Grid Power'', Some ''600''), (''PV1 Charging Power'', Some ''1500''),
              (''PV2 Charging Power'', Some ''0'')])
       (store_with [''grid_feeding_enabled'' \<mapsto> False])
     = True
   \<and> spec_belief True (Val 1500) (Val 600) (Some False) = True
   \<and> storage_get
         (snd (fst (checkGridFeed default_config 0 True
                      (initial_state 0, store_with [''grid_feeding_enabled'' \<mapsto> False]))))
         ''grid_feeding_enabled'' False = True
   \<and> storage_get
         (snd (fst (runAllChecks default_config parseFloat_digits
                      (poll_at 0 12 normal_daily normal_device)
                      (initial_state 0, store_with [''grid_feeding_enabled'' \<mapsto> False]))))
         ''grid_feeding_enabled'' False = True"
proof -
  let ?dat = "[(''Solar Feed To Grid Power'', Some ''600''), (''PV1 Charging Power'', Some ''1500''),
               (''PV2 Charging Power'', Some ''0'')] :: device_item list"
  let ?st = "store_with [''grid_feeding_enabled'' \<mapsto> False]"
  let ?q = "poll_at 0 12 normal_daily normal_device"
  have h1: "?dat \<noteq> []"
    by simp
  have h2: "Val 600 = parseFloat_digits (lookup_or_zero (deviceData_of ?dat) ''Solar Feed To Grid Power'')"
    and h3: "Val 1500 = parseFloat_digits (lookup_or_zero (deviceData_of ?dat) ''PV1 Charging Power'')"
    and h4: "Val 0 = parseFloat_digits (lookup_or_zero (deviceData_of ?dat) ''PV2 Charging Power'')"
    by (simp_all only: normal_device_values parseFloat_digits_values)
  have h5: "Val 1500 = num_add (Val 1500) (if isNaN (Val 0) then Val 0 else Val 0)"
    by (simp add: fl_whole)
  have feeding: "num_ge (Val 600) (Val 50)"
    by simp
  have w: "writable ?st"
    by (simp add: store_with_def)
  have saved: "loadSettings ?st ''grid_feeding_enabled'' = Some False"
    by (simp add: store_with_def loadSettings_def)
  have ok: "\<not> fetch_failed ?q"
    by (simp add: fetch_failed_def poll_at_def normal_daily_def daily_with_def)
  note th = export_belief_rule [OF h1 h2 h3 h4 h5, of 12 ?st default_config 0 True
      "initial_state 0" False ?q]
  have q: "localHour ?q = 12" "deviceLastData ?q = Some ?dat"
    by (simp_all add: poll_at_def normal_device_def)
  have b: "getGridFeedStatus parseFloat_digits 12 (Some ?dat) ?st = True"
    using th by simp
  have sp: "spec_belief True (Val 1500) (Val 600) (Some False) = True"
    using th feeding b by (simp add: saved)
  have st: "storage_get (snd (fst (checkGridFeed default_config 0 True (initial_state 0, ?st))))
              ''grid_feeding_enabled'' False = True"
    using th w by blast
  have pass: "storage_get
                (snd (fst (runAllChecks default_config parseFloat_digits ?q (initial_state 0, ?st))))
                ''grid_feeding_enabled'' False = True"
    using th ok w b by (simp add: q)
  from h1 feeding w ok b sp st pass show ?thesis
    by blast
qed

text \<open>
  The sentence of C10 fails as it stands: at 22:00, with no production, a feed of 30 W
  and a persisted belief "disabled", the code resolves "disabled" (30 W is below its
  50 W mark, so it falls back to the persisted belief), where feeding any amount should
  give "enabled".
\<close>

theorem export_belief_counterexample:
  "getGridFeedStatus parseFloat_digits 22
     (Some [(''Solar Feed To Grid Power'', Some ''30''), (''PV1 Charging Power'', Some ''0''),
            (''PV2 Charging Power'', Some ''0'')])
     (store_with [''grid_feeding_enabled'' \<mapsto> False])
   = False
   \<and> spec_belief False (Val 0) (Val 30)
       (loadSettings (store_with [''grid_feeding_enabled'' \<mapsto> False]) ''grid_feeding_enabled'')
     = True"
  by (simp add: getGridFeedStatus_def lookup_or_zero_def deviceData_of_def truthy_def
        parseFloat_digits_values storage_get_def loadSettings_def store_with_def spec_belief_def
        fl_whole Let_def)

end
